theory Spec2Isabelle
  imports Main "HOL-Library.AList"
begin

section \<open>blockstatd: the collection and delivery pipeline\<close>

text \<open>
  A shallow embedding of \<^verbatim>\<open>blockstatd.py\<close>: the counter enumeration, the send
  buffers, the two formatters, the per-device collector and the metrics loop. Python
  strings are modelled as \<^typ>\<open>string\<close>, restricted to code points below 256; Python's
  unbounded integers are \<^typ>\<open>int\<close>. Everything the program obtains from its
  surroundings (the clock, the content of a stat file, the host name, the time zone, the
  behaviour of the network) is an explicit argument. Diagnostics written to standard
  error by \<^verbatim>\<open>warn\<close>, \<^verbatim>\<open>error\<close> and \<^verbatim>\<open>debug\<close> are not part of the model.
\<close>

subsection \<open>StatType\<close>

datatype StatType =
    read_io | read_merges | read_sectors | read_ticks
  | write_io | write_merges | write_sectors | write_ticks
  | in_flight | io_ticks | time_in_queue

text \<open>The integer value of a member (\<^verbatim>\<open>stat_type.value\<close>).\<close>

fun StatType_value :: "StatType \<Rightarrow> nat" where
  "StatType_value read_io = 0"
| "StatType_value read_merges = 1"
| "StatType_value read_sectors = 2"
| "StatType_value read_ticks = 3"
| "StatType_value write_io = 4"
| "StatType_value write_merges = 5"
| "StatType_value write_sectors = 6"
| "StatType_value write_ticks = 7"
| "StatType_value in_flight = 8"
| "StatType_value io_ticks = 9"
| "StatType_value time_in_queue = 10"

text \<open>The symbolic name of a member (\<^verbatim>\<open>stat_type.name\<close>).\<close>

fun StatType_name :: "StatType \<Rightarrow> string" where
  "StatType_name read_io = ''read_io''"
| "StatType_name read_merges = ''read_merges''"
| "StatType_name read_sectors = ''read_sectors''"
| "StatType_name read_ticks = ''read_ticks''"
| "StatType_name write_io = ''write_io''"
| "StatType_name write_merges = ''write_merges''"
| "StatType_name write_sectors = ''write_sectors''"
| "StatType_name write_ticks = ''write_ticks''"
| "StatType_name in_flight = ''in_flight''"
| "StatType_name io_ticks = ''io_ticks''"
| "StatType_name time_in_queue = ''time_in_queue''"

text \<open>Iterating over the enumeration (\<^verbatim>\<open>for stat_type in StatType\<close>) follows the
  definition order.\<close>

definition StatType_members :: "StatType list" where
  "StatType_members =
     [read_io, read_merges, read_sectors, read_ticks,
      write_io, write_merges, write_sectors, write_ticks,
      in_flight, io_ticks, time_in_queue]"

subsection \<open>ASendBuffer\<close>

text \<open>The base class holds the pending text in \<^verbatim>\<open>_messages\<close>; the subclasses extend
  the record.\<close>

record ASendBuffer =
  messages :: string

text \<open>\<^verbatim>\<open>if self._messages:\<close> tests that the string is non-empty.\<close>

definition ASendBuffer_put :: "string \<Rightarrow> 'a ASendBuffer_scheme \<Rightarrow> 'a ASendBuffer_scheme" where
  "ASendBuffer_put message self =
     (let self1 = (if messages self \<noteq> [] then self\<lparr>messages := messages self @ ''\<newline>''\<rparr> else self)
      in self1\<lparr>messages := messages self1 @ message\<rparr>)"

definition ASendBuffer_get_messages :: "'a ASendBuffer_scheme \<Rightarrow> string" where
  "ASendBuffer_get_messages self = messages self"

definition ASendBuffer_clear :: "'a ASendBuffer_scheme \<Rightarrow> 'a ASendBuffer_scheme" where
  "ASendBuffer_clear self = self\<lparr>messages := []\<rparr>"

text \<open>\<^verbatim>\<open>__init__\<close> only calls \<^verbatim>\<open>clear\<close>.\<close>

definition StdoutBuffer_init :: ASendBuffer where
  "StdoutBuffer_init = ASendBuffer_clear \<lparr>messages = []\<rparr>"

subsection \<open>Python string and integer primitives\<close>

text \<open>\<^verbatim>\<open>str.isspace\<close> on one character, which is also what \<^verbatim>\<open>\s\<close> matches in a
  \<^verbatim>\<open>str\<close> pattern: tab, line feed, vertical tab, form feed, carriage return, the
  four separators 28 to 31, space, and in the Latin-1 range NEL (133) and the no-break
  space (160).\<close>

definition isspace :: "char \<Rightarrow> bool" where
  "isspace c = (c \<in> set [CHR 0x09, CHR 0x0A, CHR 0x0B, CHR 0x0C, CHR 0x0D,
                           CHR 0x1C, CHR 0x1D, CHR 0x1E, CHR 0x1F, CHR 0x20,
                           CHR 0x85, CHR 0xA0])"

definition lstrip :: "string \<Rightarrow> string" where
  "lstrip s = dropWhile isspace s"

definition rstrip :: "string \<Rightarrow> string" where
  "rstrip s = rev (dropWhile isspace (rev s))"

text \<open>\<^verbatim>\<open>re_sub("\s+", " ", s)\<close>: every maximal run of whitespace becomes one space.\<close>

function re_sub_spaces :: "string \<Rightarrow> string" where
  "re_sub_spaces [] = []"
| "re_sub_spaces (c # cs) =
     (if isspace c then CHR '' '' # re_sub_spaces (dropWhile isspace cs)
      else c # re_sub_spaces cs)"
  by pat_completeness auto
termination
  by (relation "measure length") (auto simp: length_dropWhile_le less_Suc_eq_le)

text \<open>\<^verbatim>\<open>s.split(sep)\<close> for a one-character separator: every occurrence splits, and
  empty fields are kept (\<^verbatim>\<open>"".split(" ") == [""]\<close>). \<open>cur\<close> is the field being
  read.\<close>

fun split_from :: "char \<Rightarrow> string \<Rightarrow> string \<Rightarrow> string list" where
  "split_from sep cur [] = [cur]"
| "split_from sep cur (c # cs) =
     (if c = sep then cur # split_from sep [] cs else split_from sep (cur @ [c]) cs)"

definition str_split :: "char \<Rightarrow> string \<Rightarrow> string list" where
  "str_split sep s = split_from sep [] s"

text \<open>\<^verbatim>\<open>str.isdecimal\<close> on one character: the characters that \<^verbatim>\<open>int\<close> reads as
  decimal digits, which below code point 256 are the ten ASCII digits.\<close>

definition isdecimal :: "char \<Rightarrow> bool" where
  "isdecimal c = (c \<in> set ''0123456789'')"

definition digit_value :: "char \<Rightarrow> int" where
  "digit_value c = int (of_char c) - 48"

text \<open>The digits of an integer literal after its first digit: a single underscore is
  allowed between two digits. \<open>None\<close> stands for \<^verbatim>\<open>ValueError\<close>.\<close>

fun digits_from :: "int \<Rightarrow> string \<Rightarrow> int option" where
  "digits_from acc [] = Some acc"
| "digits_from acc (c # cs) =
     (if isdecimal c then digits_from (10 * acc + digit_value c) cs
      else if c = CHR ''_'' then
        (case cs of
           [] \<Rightarrow> None
         | d # ds \<Rightarrow> if isdecimal d then digits_from acc cs else None)
      else None)"

text \<open>The interpreter refuses to convert between a string and an integer of more than
  \<^verbatim>\<open>sys.int_max_str_digits\<close> decimal digits; 4300 is its default.\<close>

definition int_max_str_digits :: int where
  "int_max_str_digits = 4300"

text \<open>The digits of a literal (sign and whitespace removed): more digit characters than
  the limit allows are refused, underscores not counted.\<close>

definition parse_digits :: "string \<Rightarrow> int option" where
  "parse_digits s =
     (case s of
        [] \<Rightarrow> None
      | c # cs \<Rightarrow>
          if isdecimal c then
            (if int_max_str_digits < int (length (filter isdecimal s)) then None
             else digits_from 0 s)
          else None)"

text \<open>\<^verbatim>\<open>int(s)\<close> for a string, base ten: surrounding whitespace is stripped, one sign is
  allowed, then come the digits. \<open>None\<close> stands for \<^verbatim>\<open>ValueError\<close>. \<^verbatim>\<open>collect\<close>
  applies it to the fields of a split record, which contain no whitespace, so that
  nothing is stripped there.\<close>

definition py_int :: "string \<Rightarrow> int option" where
  "py_int s =
     (case rstrip (lstrip s) of
        [] \<Rightarrow> None
      | c # cs \<Rightarrow>
          if c = CHR ''-'' then map_option uminus (parse_digits cs)
          else if c = CHR ''+'' then parse_digits cs
          else parse_digits (c # cs))"

text \<open>The decimal digits of a non-negative integer, the most significant first.\<close>

function decimal_digits :: "int \<Rightarrow> string" where
  "decimal_digits n =
     (if n < 10 then [''0123456789'' ! nat n]
      else decimal_digits (n div 10) @ [''0123456789'' ! nat (n mod 10)])"
  by pat_completeness auto
termination
  by (relation "measure nat") auto

declare decimal_digits.simps [simp del]

text \<open>The decimal digits of an integer, with a minus sign when negative.\<close>

definition decimal_repr :: "int \<Rightarrow> string" where
  "decimal_repr i = (if i < 0 then CHR ''-'' # decimal_digits (- i) else decimal_digits i)"

text \<open>\<^verbatim>\<open>str(n)\<close> for an integer, which is also how \<^verbatim>\<open>format\<close> renders an integer
  argument. \<open>None\<close> stands for the \<^verbatim>\<open>ValueError\<close> raised when \<open>n\<close> has more digits than
  the limit allows; the sign is not counted.\<close>

definition py_str :: "int \<Rightarrow> string option" where
  "py_str i =
     (if int_max_str_digits < int (length (decimal_digits (if i < 0 then - i else i)))
      then None
      else Some (decimal_repr i))"

text \<open>\<^verbatim>\<open>fmt.format(*args)\<close> for the format strings of this program: literal text and
  replacement fields \<^verbatim>\<open>{d}\<close> with a one-digit positional index; the arguments are
  given already converted to strings. \<open>None\<close> stands for the exception Python raises on
  an index out of range, and for the field forms this program does not use.\<close>

fun py_format :: "string \<Rightarrow> string list \<Rightarrow> string option" where
  "py_format [] args = Some []"
| "py_format (c # cs) args =
     (if c = CHR ''{'' then
        (case cs of
           d # e # rest \<Rightarrow>
             if isdecimal d \<and> e = CHR ''}'' \<and> nat (digit_value d) < length args
             then map_option ((@) (args ! nat (digit_value d))) (py_format rest args)
             else None
         | _ \<Rightarrow> None)
      else if c = CHR ''}'' then None
      else map_option ((#) c) (py_format cs args))"

subsection \<open>BlockStat\<close>

text \<open>\<^verbatim>\<open>_time\<close> holds \<^verbatim>\<open>int(time.time())\<close> after a read, and the float \<^verbatim>\<open>0.0\<close>
  initially and after a failed read.\<close>

datatype timestamp = Seconds int | ZeroFloat

fun timestamp_value :: "timestamp \<Rightarrow> int" where
  "timestamp_value (Seconds t) = t"
| "timestamp_value ZeroFloat = 0"

text \<open>How \<^verbatim>\<open>format\<close> renders the time: as \<^verbatim>\<open>str\<close> does for the integer, or \<^verbatim>\<open>0.0\<close>.\<close>

fun timestamp_str :: "timestamp \<Rightarrow> string option" where
  "timestamp_str (Seconds t) = py_str t"
| "timestamp_str ZeroFloat = Some ''0.0''"

text \<open>\<^verbatim>\<open>_stats\<close> is a dictionary; its items are kept in insertion order, and storing
  under a key that is present keeps the key's place (\<^const>\<open>AList.update\<close>).\<close>

record BlockStat =
  self_block :: string
  self_stats :: "(StatType \<times> int) list"
  self_time :: timestamp

definition BlockStat_init :: "string \<Rightarrow> BlockStat" where
  "BlockStat_init b = \<lparr>self_block = b, self_stats = [], self_time = ZeroFloat\<rparr>"

datatype exn = ValueError | IndexError | TimeOutOfRange

text \<open>A call either returns, or raises; in both cases it leaves a state behind.\<close>

datatype 'a outcome = Returns 'a | Raises exn 'a

text \<open>What opening and reading \<^verbatim>\<open>/sys/block/<block>/stat\<close> gives: an \<^verbatim>\<open>IOError\<close>, or
  the text of the file.\<close>

datatype read_result = IOError | Content string

text \<open>The loop over the counters. The subscript is evaluated first and raises
  \<^verbatim>\<open>IndexError\<close>, which is not caught; \<^verbatim>\<open>int\<close> raises \<^verbatim>\<open>ValueError\<close>, which is
  logged and raised again.\<close>

fun collect_loop :: "string list \<Rightarrow> StatType list \<Rightarrow> BlockStat \<Rightarrow> BlockStat outcome" where
  "collect_loop blockstat_map [] self = Returns self"
| "collect_loop blockstat_map (stat_type # rest) self =
     (if StatType_value stat_type < length blockstat_map then
        (case py_int (blockstat_map ! StatType_value stat_type) of
           None \<Rightarrow> Raises ValueError self
         | Some v \<Rightarrow>
             collect_loop blockstat_map rest
               (self\<lparr>self_stats := AList.update stat_type v (self_stats self)\<rparr>))
      else Raises IndexError self)"

text \<open>\<^verbatim>\<open>collect\<close>, given the clock's reading and the result of the read. In the
  handler of \<^verbatim>\<open>IOError\<close> the assignment \<^verbatim>\<open>_stats = dict()\<close> binds a local name
  (\<open>local_stats\<close>): the object's \<^verbatim>\<open>_stats\<close> is not touched.\<close>

definition BlockStat_collect :: "int \<Rightarrow> read_result \<Rightarrow> BlockStat \<Rightarrow> BlockStat outcome" where
  "BlockStat_collect now rd self =
     (let self1 = self\<lparr>self_time := Seconds now\<rparr> in
      case rd of
        IOError \<Rightarrow>
          let local_stats = ([] :: (StatType \<times> int) list);
              self2 = self1\<lparr>self_time := ZeroFloat\<rparr>
          in Returns self2
      | Content text \<Rightarrow>
          let blockstat_str = re_sub_spaces (rstrip (lstrip text));
              blockstat_map = str_split (CHR '' '') blockstat_str
          in collect_loop blockstat_map StatType_members self1)"

subsection \<open>Local time\<close>

text \<open>\<^verbatim>\<open>datetime.fromtimestamp(t)\<close> gives the local civil time of the instant \<open>t\<close>. The
  time zone is the host's: \<open>utcoffset t\<close> is the zone's offset from UTC, in seconds, at
  the instant \<open>t\<close>. The date is the proleptic Gregorian one.\<close>

record datetime =
  year :: int
  month :: int
  day :: int
  hour :: int
  minute :: int
  second :: int

text \<open>The civil date of a day number (days since 1970-01-01), computed in eras of 400
  years that start on the first of March: the day of the era, the year of the era, the
  day of that year counted from the first of March, and the month counted from March.\<close>

definition day_of_era :: "int \<Rightarrow> int" where
  "day_of_era days = (days + 719468) mod 146097"

definition year_of_era :: "int \<Rightarrow> int" where
  "year_of_era doe = (doe - doe div 1460 + doe div 36524 - doe div 146096) div 365"

definition day_of_year :: "int \<Rightarrow> int" where
  "day_of_year doe =
     doe - (365 * year_of_era doe + year_of_era doe div 4 - year_of_era doe div 100)"

definition month_from_march :: "int \<Rightarrow> int" where
  "month_from_march doy = (5 * doy + 2) div 153"

definition civil_from_days :: "int \<Rightarrow> int \<times> int \<times> int" where
  "civil_from_days days =
     (let doe = day_of_era days;
          doy = day_of_year doe;
          mp = month_from_march doy;
          m = (if mp < 10 then mp + 3 else mp - 9)
      in (year_of_era doe + (days + 719468) div 146097 * 400 + (if m \<le> 2 then 1 else 0),
          m,
          doy - (153 * mp + 2) div 5 + 1))"

text \<open>The local civil time of an instant, as \<^verbatim>\<open>localtime\<close> gives it. Years outside 1 to
  9999 are refused (with \<^verbatim>\<open>ValueError\<close>, \<^verbatim>\<open>OverflowError\<close> or \<^verbatim>\<open>OSError\<close>, by
  magnitude: one exception stands for the three).\<close>

definition local_time :: "(int \<Rightarrow> int) \<Rightarrow> int \<Rightarrow> exn + datetime" where
  "local_time utcoffset t =
     (let local = t + utcoffset t;
          s = local mod 86400
      in case civil_from_days (local div 86400) of
           (y, m, d) \<Rightarrow>
             if y < 1 \<or> 9999 < y then Inl TimeOutOfRange
             else Inr \<lparr>year = y, month = m, day = d,
                       hour = s div 3600, minute = s mod 3600 div 60, second = s mod 60\<rparr>)"

definition max_fold_seconds :: int where
  "max_fold_seconds = 24 * 3600"

text \<open>\<^verbatim>\<open>datetime.fromtimestamp(t)\<close> without a time zone argument. After the local time
  of \<open>t\<close> it computes, to find out whether that time is the second of two equal wall
  clock times, the local time one day earlier, and when the zone's offset has gone down
  in that day, the local time at the instant earlier than \<open>t\<close> by the difference. Each of
  them raises when its year is out of range, so that the first day of the year 1 is
  refused. The result is the local time of \<open>t\<close>.\<close>

definition fromtimestamp :: "(int \<Rightarrow> int) \<Rightarrow> int \<Rightarrow> exn + datetime" where
  "fromtimestamp utcoffset t =
     (case local_time utcoffset t of
        Inl e \<Rightarrow> Inl e
      | Inr result \<Rightarrow>
          (case local_time utcoffset (t - max_fold_seconds) of
             Inl e \<Rightarrow> Inl e
           | Inr probe1 \<Rightarrow>
               let transition = utcoffset t - utcoffset (t - max_fold_seconds) in
               if transition < 0 then
                 (case local_time utcoffset (t + transition) of
                    Inl e \<Rightarrow> Inl e
                  | Inr probe2 \<Rightarrow> Inr result)
               else Inr result))"

definition zero_padded :: "nat \<Rightarrow> int \<Rightarrow> string" where
  "zero_padded width n =
     replicate (width - length (decimal_digits n)) (CHR ''0'') @ decimal_digits n"

text \<open>\<^verbatim>\<open>strftime('%Y-%m-%d %H:%M:%S')\<close> with the C library of Linux, the system whose
  \<^verbatim>\<open>/sys/block\<close> the program reads: \<^verbatim>\<open>%Y\<close> writes the year without padding, so a year
  below 1000 has fewer than four digits; the other fields are padded to two digits.\<close>

definition strftime :: "datetime \<Rightarrow> string" where
  "strftime dt =
     decimal_digits (year dt) @ ''-'' @ zero_padded 2 (month dt) @ ''-'' @ zero_padded 2 (day dt)
     @ '' '' @ zero_padded 2 (hour dt) @ '':'' @ zero_padded 2 (minute dt) @ '':''
     @ zero_padded 2 (second dt)"

text \<open>The shape of a text: \<open>matches p s\<close> holds when \<open>s\<close> has the length of the pattern
  \<open>p\<close>, a digit wherever the pattern has the letter \<^verbatim>\<open>d\<close>, and the pattern's own
  character everywhere else.\<close>

fun matches :: "string \<Rightarrow> string \<Rightarrow> bool" where
  "matches [] [] = True"
| "matches (p # ps) (c # cs) = ((if p = CHR ''d'' then isdecimal c else c = p) \<and> matches ps cs)"
| "matches ps cs = False"

subsection \<open>IOutput: the two formatters\<close>

datatype IOutput = HumanOutput | GraphiteOutput

text \<open>What both formatters read from the host besides their arguments: the time zone
  (\<^verbatim>\<open>datetime.fromtimestamp\<close>) and the host name (\<^verbatim>\<open>socket.gethostname()\<close>).\<close>

record ambient =
  utcoffset :: "int \<Rightarrow> int"
  gethostname :: string

text \<open>\<^verbatim>\<open>str(stat)\<close> is evaluated after the time has been rendered, and raises
  \<^verbatim>\<open>ValueError\<close> for a value beyond the digit limit.\<close>

definition HumanOutput_send ::
  "ambient \<Rightarrow> 'a ASendBuffer_scheme \<Rightarrow> timestamp \<Rightarrow> StatType \<Rightarrow> string \<Rightarrow> int
     \<Rightarrow> 'a ASendBuffer_scheme outcome" where
  "HumanOutput_send host send_buffer the_time stat_type block stat =
     (case fromtimestamp (utcoffset host) (timestamp_value the_time) of
        Inl e \<Rightarrow> Raises e send_buffer
      | Inr dt \<Rightarrow>
          let pretty_time = strftime dt in
          case py_str stat of
            None \<Rightarrow> Raises ValueError send_buffer
          | Some stat_str \<Rightarrow>
              (case py_format ''{0} {2}[{1}]: {3}''
                      [pretty_time, StatType_name stat_type, block, stat_str] of
                 None \<Rightarrow> Raises IndexError send_buffer
               | Some line \<Rightarrow> Returns (ASendBuffer_put line send_buffer)))"

text \<open>\<^verbatim>\<open>socket.gethostname().split('.', 1)[0]\<close> is the host name up to its first dot.
  \<^verbatim>\<open>format\<close> renders the time and the value itself, and raises \<^verbatim>\<open>ValueError\<close> when
  either is an integer beyond the digit limit.\<close>

definition GraphiteOutput_send ::
  "ambient \<Rightarrow> 'a ASendBuffer_scheme \<Rightarrow> timestamp \<Rightarrow> StatType \<Rightarrow> string \<Rightarrow> int
     \<Rightarrow> 'a ASendBuffer_scheme outcome" where
  "GraphiteOutput_send host send_buffer the_time stat_type block stat =
     (let short_hostname = takeWhile (\<lambda>c. c \<noteq> CHR ''.'') (gethostname host) in
      case timestamp_str the_time of
        None \<Rightarrow> Raises ValueError send_buffer
      | Some time_str \<Rightarrow>
          (case py_str stat of
             None \<Rightarrow> Raises ValueError send_buffer
           | Some stat_str \<Rightarrow>
               (case py_format ''blockstat.{4}.{2}.{1} {3} {0}''
                       [time_str, StatType_name stat_type, block, stat_str, short_hostname] of
                  None \<Rightarrow> Raises IndexError send_buffer
                | Some line \<Rightarrow> Returns (ASendBuffer_put line send_buffer))))"

fun IOutput_send ::
  "IOutput \<Rightarrow> ambient \<Rightarrow> 'a ASendBuffer_scheme \<Rightarrow> timestamp \<Rightarrow> StatType \<Rightarrow> string \<Rightarrow> int
     \<Rightarrow> 'a ASendBuffer_scheme outcome" where
  "IOutput_send HumanOutput = HumanOutput_send"
| "IOutput_send GraphiteOutput = GraphiteOutput_send"

text \<open>\<^verbatim>\<open>sendto\<close>: one \<^verbatim>\<open>send\<close> per item of \<^verbatim>\<open>_stats\<close>, in the dictionary's order.\<close>

fun sendto_items ::
  "IOutput \<Rightarrow> ambient \<Rightarrow> timestamp \<Rightarrow> string \<Rightarrow> (StatType \<times> int) list
     \<Rightarrow> 'a ASendBuffer_scheme \<Rightarrow> 'a ASendBuffer_scheme outcome" where
  "sendto_items output host t b [] send_buffer = Returns send_buffer"
| "sendto_items output host t b ((stat_type, stat) # items) send_buffer =
     (case IOutput_send output host send_buffer t stat_type b stat of
        Raises e send_buffer1 \<Rightarrow> Raises e send_buffer1
      | Returns send_buffer1 \<Rightarrow> sendto_items output host t b items send_buffer1)"

definition BlockStat_sendto ::
  "BlockStat \<Rightarrow> IOutput \<Rightarrow> ambient \<Rightarrow> 'a ASendBuffer_scheme \<Rightarrow> 'a ASendBuffer_scheme outcome" where
  "BlockStat_sendto self output host send_buffer =
     sendto_items output host (self_time self) (self_block self) (self_stats self) send_buffer"

subsection \<open>GraphiteBuffer and its socket\<close>

record GraphiteBuffer = ASendBuffer +
  server_and_port :: "string \<times> int"

definition GraphiteBuffer_init :: "string \<Rightarrow> int \<Rightarrow> GraphiteBuffer" where
  "GraphiteBuffer_init server port =
     (ASendBuffer_clear \<lparr>messages = [], server_and_port = (server, port)\<rparr>)
       \<lparr>server_and_port := (server, port)\<rparr>"

text \<open>A socket object is unconnected when created, connected after a successful
  \<^verbatim>\<open>connect\<close>, and closed for good after \<^verbatim>\<open>close\<close>.\<close>

datatype sock_state = Unconnected | Connected | Closed

text \<open>What the network lets one attempt do: refuse the connection, accept it and break
  during the transfer, or accept it and take the whole payload.\<close>

datatype fate = ConnectFails | SendFails | Delivers

text \<open>\<^verbatim>\<open>connect\<close> raises on a closed socket (bad file descriptor) and on a connected
  one whatever the network would do; on an unconnected socket the network decides, and a
  refused socket stays unconnected. \<open>None\<close> stands for the exception.\<close>

fun socket_connect :: "fate \<Rightarrow> sock_state \<Rightarrow> sock_state option" where
  "socket_connect f Closed = None"
| "socket_connect f Connected = None"
| "socket_connect f Unconnected = (if f = ConnectFails then None else Some Connected)"

text \<open>\<^verbatim>\<open>sendall\<close> returns only when the socket is connected and the network takes all
  of the payload; otherwise it raises.\<close>

definition socket_sendall :: "fate \<Rightarrow> sock_state \<Rightarrow> bool" where
  "socket_sendall f s = (s = Connected \<and> f = Delivers)"

definition socket_close :: "sock_state \<Rightarrow> sock_state" where
  "socket_close s = Closed"

text \<open>\<^verbatim>\<open>s.encode("UTF-8")\<close> for code points below 256: one byte below 128, two bytes from
  128 on. The result is a string of bytes.\<close>

definition utf8_char :: "char \<Rightarrow> string" where
  "utf8_char c =
     (if (of_char c :: nat) < 128 then [c]
      else [char_of (192 + (of_char c :: nat) div 64), char_of (128 + (of_char c :: nat) mod 64)])"

definition utf8_encode :: "string \<Rightarrow> string" where
  "utf8_encode s = concat (map utf8_char s)"

text \<open>The calls made on sockets, as an observer of the process sees them; the number
  identifies the socket object, and the payload of \<^verbatim>\<open>sendall\<close> is the bytes handed to
  it.\<close>

datatype net_event =
    SocketCreated nat
  | ConnectCalled nat "string \<times> int" bool
  | SendallCalled nat string bool
  | CloseCalled nat

record flush_state =
  buffer :: GraphiteBuffer
  graphite_server :: sock_state
  trace :: "net_event list"

text \<open>The body of \<^verbatim>\<open>for attempt in range(0, 3)\<close>. \<open>fd\<close> names the socket object that
  \<^verbatim>\<open>flush\<close> created; \<open>net attempt\<close> is what the network does in that attempt.\<close>

fun flush_attempts :: "(nat \<Rightarrow> fate) \<Rightarrow> nat \<Rightarrow> nat list \<Rightarrow> flush_state \<Rightarrow> flush_state" where
  "flush_attempts net fd [] st = st"
| "flush_attempts net fd (attempt # rest) st =
     (case socket_connect (net attempt) (graphite_server st) of
        None \<Rightarrow>
          flush_attempts net fd rest
            (st\<lparr>trace := trace st @ [ConnectCalled fd (server_and_port (buffer st)) False]\<rparr>)
      | Some connected \<Rightarrow>
          let st1 = st\<lparr>graphite_server := connected,
                       trace := trace st @ [ConnectCalled fd (server_and_port (buffer st)) True]\<rparr>;
              payload = utf8_encode (ASendBuffer_get_messages (buffer st1) @ ''\<newline>'')
          in if socket_sendall (net attempt) (graphite_server st1)
             then st1\<lparr>buffer := ASendBuffer_clear (buffer st1),
                      trace := trace st1 @ [SendallCalled fd payload True]\<rparr>
             else flush_attempts net fd rest
                    (st1\<lparr>graphite_server := socket_close (graphite_server st1),
                         trace := trace st1 @ [SendallCalled fd payload False, CloseCalled fd]\<rparr>))"

text \<open>\<^verbatim>\<open>flush\<close>: one socket is created before the loop and closed after it.\<close>

definition GraphiteBuffer_flush ::
  "(nat \<Rightarrow> fate) \<Rightarrow> nat \<Rightarrow> GraphiteBuffer \<Rightarrow> GraphiteBuffer \<times> net_event list" where
  "GraphiteBuffer_flush net fd self =
     (let st = flush_attempts net fd [0..<3]
                 \<lparr>buffer = self, graphite_server = Unconnected, trace = [SocketCreated fd]\<rparr>
      in (buffer st, trace st @ [CloseCalled fd]))"

text \<open>\<^verbatim>\<open>StdoutBuffer.flush\<close> prints the pending text and clears; the result is the
  buffer and the text written to standard output.\<close>

definition StdoutBuffer_flush :: "ASendBuffer \<Rightarrow> ASendBuffer \<times> string" where
  "StdoutBuffer_flush self = (ASendBuffer_clear self, messages self @ ''\<newline>'')"

subsection \<open>The metrics loop\<close>

text \<open>The buffer handed to \<^verbatim>\<open>_do_metrics\<close> is an instance of one of the two
  subclasses.\<close>

datatype SendBuffer = StdoutBuffer ASendBuffer | GraphiteBuffer GraphiteBuffer

text \<open>The process: its collectors, its buffer, what it has printed on standard output,
  the socket calls it has made, and how many sockets it has created.\<close>

record daemon =
  blockstats :: "BlockStat list"
  send_buffer :: SendBuffer
  stdout :: "string list"
  network :: "net_event list"
  sockets :: nat

text \<open>What surrounds the process during one cycle: the clock and the stat file of
  each device, the host's zone and name, and the network's fate for each attempt.\<close>

record surroundings =
  clock :: "string \<Rightarrow> int"
  statfile :: "string \<Rightarrow> read_result"
  machine :: ambient
  transport :: "nat \<Rightarrow> fate"

text \<open>\<^verbatim>\<open>for blockstat in blockstats: blockstat.collect()\<close>; an exception leaves the loop.\<close>

fun collect_all :: "surroundings \<Rightarrow> BlockStat list \<Rightarrow> BlockStat list outcome" where
  "collect_all env [] = Returns []"
| "collect_all env (blockstat # rest) =
     (case BlockStat_collect (clock env (self_block blockstat))
             (statfile env (self_block blockstat)) blockstat of
        Raises e blockstat1 \<Rightarrow> Raises e (blockstat1 # rest)
      | Returns blockstat1 \<Rightarrow>
          (case collect_all env rest of
             Raises e rest1 \<Rightarrow> Raises e (blockstat1 # rest1)
           | Returns rest1 \<Rightarrow> Returns (blockstat1 # rest1)))"

text \<open>\<^verbatim>\<open>for blockstat in blockstats: blockstat.sendto(output, send_buffer)\<close>.\<close>

fun sendto_all ::
  "IOutput \<Rightarrow> ambient \<Rightarrow> BlockStat list \<Rightarrow> 'a ASendBuffer_scheme \<Rightarrow> 'a ASendBuffer_scheme outcome" where
  "sendto_all output h [] buf = Returns buf"
| "sendto_all output h (blockstat # rest) buf =
     (case BlockStat_sendto blockstat output h buf of
        Raises e buf1 \<Rightarrow> Raises e buf1
      | Returns buf1 \<Rightarrow> sendto_all output h rest buf1)"

text \<open>One turn of \<^verbatim>\<open>while True\<close>: collect, format, flush. The sleep that ends the turn
  changes nothing in the state.\<close>

definition cycle :: "IOutput \<Rightarrow> surroundings \<Rightarrow> daemon \<Rightarrow> daemon outcome" where
  "cycle output env d =
     (case collect_all env (blockstats d) of
        Raises e bs \<Rightarrow> Raises e (d\<lparr>blockstats := bs\<rparr>)
      | Returns bs \<Rightarrow>
          let d1 = d\<lparr>blockstats := bs\<rparr> in
          (case send_buffer d1 of
             StdoutBuffer b \<Rightarrow>
               (case sendto_all output (machine env) bs b of
                  Raises e b1 \<Rightarrow> Raises e (d1\<lparr>send_buffer := StdoutBuffer b1\<rparr>)
                | Returns b1 \<Rightarrow>
                    (case StdoutBuffer_flush b1 of
                       (b2, printed) \<Rightarrow>
                         Returns (d1\<lparr>send_buffer := StdoutBuffer b2,
                                     stdout := stdout d1 @ [printed]\<rparr>)))
           | GraphiteBuffer g \<Rightarrow>
               (case sendto_all output (machine env) bs g of
                  Raises e g1 \<Rightarrow> Raises e (d1\<lparr>send_buffer := GraphiteBuffer g1\<rparr>)
                | Returns g1 \<Rightarrow>
                    (case GraphiteBuffer_flush (transport env) (sockets d1) g1 of
                       (g2, calls) \<Rightarrow>
                         Returns (d1\<lparr>send_buffer := GraphiteBuffer g2,
                                     network := network d1 @ calls,
                                     sockets := Suc (sockets d1)\<rparr>)))))"

text \<open>\<^verbatim>\<open>_do_metrics\<close> never returns: it repeats its cycle until an exception leaves it, and the
  exception then ends the process, since nothing above catches it. The model runs at
  most \<open>fuel\<close> cycles, starting with cycle number \<open>n\<close>; \<open>env n\<close> is what surrounds the
  process in cycle \<open>n\<close>.\<close>

datatype run = Terminated exn daemon | Looping daemon

fun do_metrics :: "nat \<Rightarrow> IOutput \<Rightarrow> (nat \<Rightarrow> surroundings) \<Rightarrow> nat \<Rightarrow> daemon \<Rightarrow> run" where
  "do_metrics 0 output env n d = Looping d"
| "do_metrics (Suc fuel) output env n d =
     (case cycle output (env n) d of
        Raises e d1 \<Rightarrow> Terminated e d1
      | Returns d1 \<Rightarrow> do_metrics fuel output env (Suc n) d1)"

subsection \<open>Reading a trace of socket calls\<close>

fun socket_of :: "net_event \<Rightarrow> nat" where
  "socket_of (SocketCreated fd) = fd"
| "socket_of (ConnectCalled fd a ok) = fd"
| "socket_of (SendallCalled fd p ok) = fd"
| "socket_of (CloseCalled fd) = fd"

fun is_created :: "net_event \<Rightarrow> bool" where
  "is_created (SocketCreated fd) = True"
| "is_created e = False"

fun is_connect :: "net_event \<Rightarrow> bool" where
  "is_connect (ConnectCalled fd a ok) = True"
| "is_connect e = False"


fun payloads :: "net_event list \<Rightarrow> string list" where
  "payloads [] = []"
| "payloads (SendallCalled fd p ok # es) = p # payloads es"
| "payloads (e # es) = payloads es"

text \<open>The payloads of the \<^verbatim>\<open>sendall\<close> calls that returned, that is, what the server
  has received.\<close>

fun delivered :: "net_event list \<Rightarrow> string list" where
  "delivered [] = []"
| "delivered (SendallCalled fd p ok # es) = (if ok then p # delivered es else delivered es)"
| "delivered (e # es) = delivered es"




subsection \<open>Well-formed stat records\<close>

text \<open>A string of whitespace characters only (possibly empty).\<close>

definition whitespace :: "string \<Rightarrow> bool" where
  "whitespace s = list_all isspace s"

text \<open>A decimal integer as the kernel writes it: one or more digits, and no more of them
  than the interpreter converts (a counter of the kernel has at most twenty).\<close>

definition decimal_field :: "string \<Rightarrow> bool" where
  "decimal_field f = (f \<noteq> [] \<and> list_all isdecimal f \<and> int (length f) \<le> int_max_str_digits)"

text \<open>The number that a string of digits denotes.\<close>

definition decimal_value :: "string \<Rightarrow> int" where
  "decimal_value f = foldl (\<lambda>acc c. 10 * acc + digit_value c) 0 f"

text \<open>A non-empty string without whitespace.\<close>

definition solid :: "string \<Rightarrow> bool" where
  "solid f = (f \<noteq> [] \<and> list_all (\<lambda>c. \<not> isspace c) f)"

text \<open>A first field followed by pairs of a separator and a field, as one text.\<close>

fun fields_text :: "string \<Rightarrow> (string \<times> string) list \<Rightarrow> string" where
  "fields_text f [] = f"
| "fields_text f ((sep, g) # others) = f @ sep @ fields_text g others"

text \<open>Every separator is non-empty whitespace and every field after it is solid.\<close>

definition separated :: "(string \<times> string) list \<Rightarrow> bool" where
  "separated others = list_all (\<lambda>(sep, g). sep \<noteq> [] \<and> whitespace sep \<and> solid g) others"

text \<open>A valid record: eleven decimal fields, separated by non-empty runs of whitespace,
  between leading and trailing whitespace.\<close>

definition valid_record :: "string \<Rightarrow> string \<Rightarrow> (string \<times> string) list \<Rightarrow> string \<Rightarrow> bool" where
  "valid_record lead f others trail =
     (whitespace lead \<and> whitespace trail \<and> decimal_field f \<and> length others = 10 \<and>
      list_all (\<lambda>(sep, g). sep \<noteq> [] \<and> whitespace sep \<and> decimal_field g) others)"

subsection \<open>Values that can be rendered\<close>

text \<open>An integer that \<^verbatim>\<open>str\<close> and \<^verbatim>\<open>format\<close> convert: its decimal digits, the sign
  apart, are no more than the limit. Every integer below \<open>10 ^ 4300\<close> in magnitude is
  one.\<close>

definition renderable :: "int \<Rightarrow> bool" where
  "renderable v = (int (length (decimal_digits \<bar>v\<bar>)) \<le> int_max_str_digits)"

text \<open>A time that \<^verbatim>\<open>format\<close> converts: the float \<^verbatim>\<open>0.0\<close>, or a renderable integer.\<close>

fun renderable_time :: "timestamp \<Rightarrow> bool" where
  "renderable_time (Seconds t) = renderable t"
| "renderable_time ZeroFloat = True"

text \<open>The text of a time that \<^verbatim>\<open>format\<close> converts.\<close>

fun time_repr :: "timestamp \<Rightarrow> string" where
  "time_repr (Seconds t) = decimal_repr t"
| "time_repr ZeroFloat = ''0.0''"

section \<open>Properties\<close>

subsection \<open>The send buffer\<close>

text \<open>
  Claim C9. For every buffer state, \<^verbatim>\<open>put(line)\<close> appends the line, preceded by a
  separating newline exactly when the buffer is non-empty (and appends the bare line
  to an empty buffer); starting from the empty buffer, \<^verbatim>\<open>put("a")\<close> then
  \<^verbatim>\<open>put("b")\<close> makes \<^verbatim>\<open>get_messages()\<close> return \<^verbatim>\<open>"a\nb"\<close>; and
  \<^verbatim>\<open>clear()\<close> empties the buffer from any state.
\<close>

theorem ASendBuffer_contract:
  "((ASendBuffer_get_messages (ASendBuffer_put line self) = messages self @ ''\<newline>'' @ line)
      = (messages self \<noteq> [])) \<and>
   (messages self = [] \<longrightarrow> ASendBuffer_get_messages (ASendBuffer_put line self) = line) \<and>
   ASendBuffer_get_messages (ASendBuffer_put ''b'' (ASendBuffer_put ''a'' StdoutBuffer_init))
      = ''a\<newline>b'' \<and>
   ASendBuffer_get_messages (ASendBuffer_clear self) = []"
  by (simp add: ASendBuffer_put_def ASendBuffer_get_messages_def ASendBuffer_clear_def
      StdoutBuffer_init_def)

theorem ASendBuffer_contract_witness:
  "ASendBuffer_get_messages (ASendBuffer_put ''a'' \<lparr>messages = ''''\<rparr>) = ''a'' \<and>
   ASendBuffer_get_messages (ASendBuffer_put ''b'' \<lparr>messages = ''a''\<rparr>) = ''a\<newline>b'' \<and>
   ASendBuffer_get_messages (ASendBuffer_clear \<lparr>messages = ''a\<newline>b''\<rparr>) = []"
  using ASendBuffer_contract [of "''a''" "\<lparr>messages = ''''\<rparr>"]
    ASendBuffer_contract [of "''b''" "\<lparr>messages = ''a''\<rparr>"]
    ASendBuffer_contract [of "''b''" "\<lparr>messages = ''a\<newline>b''\<rparr>"]
  by simp

subsection \<open>The networked flush\<close>

lemma range_3: "[0..<3] = [0, 1, 2]"
  by (simp add: upt_rec)

text \<open>The encoding works character by character, and leaves the characters below 128 as
  they are: the bytes of a text followed by a newline are the bytes of the text followed
  by the newline byte.\<close>

lemma utf8_encode_append: "utf8_encode (a @ b) = utf8_encode a @ utf8_encode b"
  by (simp add: utf8_encode_def)

lemma utf8_encode_newline: "utf8_encode (s @ ''\<newline>'') = utf8_encode s @ ''\<newline>''"
  by (simp add: utf8_encode_def utf8_char_def)

lemma utf8_encode_ascii:
  "list_all (\<lambda>c. (of_char c :: nat) < 128) s \<Longrightarrow> utf8_encode s = s"
  by (induction s) (simp_all add: utf8_encode_def utf8_char_def)

lemma utf8_encode_m: "utf8_encode ''m\<newline>'' = ''m\<newline>''"
  by (simp add: utf8_encode_def utf8_char_def)

text \<open>What \<^verbatim>\<open>flush\<close> does, by what the network does in the three attempts: the buffer
  it leaves and the socket calls it makes. A send failure closes the socket, so the
  attempts after it call \<^verbatim>\<open>connect\<close> on a closed socket and fail whatever the network
  would do.\<close>

lemma GraphiteBuffer_flush_cases:
  "GraphiteBuffer_flush net fd g =
     (let a = server_and_port g; p = utf8_encode (messages g @ ''\<newline>'') in
      case net 0 of
        Delivers \<Rightarrow>
          (ASendBuffer_clear g,
           [SocketCreated fd, ConnectCalled fd a True, SendallCalled fd p True, CloseCalled fd])
      | SendFails \<Rightarrow>
          (g, [SocketCreated fd, ConnectCalled fd a True, SendallCalled fd p False, CloseCalled fd,
               ConnectCalled fd a False, ConnectCalled fd a False, CloseCalled fd])
      | ConnectFails \<Rightarrow>
          (case net 1 of
             Delivers \<Rightarrow>
               (ASendBuffer_clear g,
                [SocketCreated fd, ConnectCalled fd a False, ConnectCalled fd a True,
                 SendallCalled fd p True, CloseCalled fd])
           | SendFails \<Rightarrow>
               (g, [SocketCreated fd, ConnectCalled fd a False, ConnectCalled fd a True,
                    SendallCalled fd p False, CloseCalled fd, ConnectCalled fd a False,
                    CloseCalled fd])
           | ConnectFails \<Rightarrow>
               (case net 2 of
                  Delivers \<Rightarrow>
                    (ASendBuffer_clear g,
                     [SocketCreated fd, ConnectCalled fd a False, ConnectCalled fd a False,
                      ConnectCalled fd a True, SendallCalled fd p True, CloseCalled fd])
                | SendFails \<Rightarrow>
                    (g, [SocketCreated fd, ConnectCalled fd a False, ConnectCalled fd a False,
                         ConnectCalled fd a True, SendallCalled fd p False, CloseCalled fd,
                         CloseCalled fd])
                | ConnectFails \<Rightarrow>
                    (g, [SocketCreated fd, ConnectCalled fd a False, ConnectCalled fd a False,
                         ConnectCalled fd a False, CloseCalled fd]))))"
  by (simp add: GraphiteBuffer_flush_def range_3 socket_sendall_def socket_close_def
      ASendBuffer_get_messages_def ASendBuffer_clear_def Let_def split: fate.splits)

text \<open>The retry policy where it works: at most three \<^verbatim>\<open>connect\<close> calls; the buffer is
  either untouched or cleared; it is cleared exactly when the first attempt that the
  network does not refuse at connect time is one whose send succeeds, and the trace then
  ends with that send and the final close; when every attempt is refused at connect time
  the buffer is untouched after three calls.\<close>

lemma GraphiteBuffer_flush_retry:
  "case GraphiteBuffer_flush net fd g of
     (g', tr) \<Rightarrow>
       length (filter is_connect tr) \<le> 3 \<and>
       (g' = g \<or> g' = ASendBuffer_clear g) \<and>
       (g' = ASendBuffer_clear g \<and>
          (\<exists>before. tr = before @ [SendallCalled fd (utf8_encode (messages g @ ''\<newline>'')) True,
                                    CloseCalled fd])
        \<or> g' = g \<and> (\<forall>p. SendallCalled fd p True \<notin> set tr)) \<and>
       (net 0 = ConnectFails \<and> net 1 = ConnectFails \<and> net 2 = Delivers \<longrightarrow>
          g' = ASendBuffer_clear g \<and> length (filter is_connect tr) = 3) \<and>
       (net 0 = ConnectFails \<and> net 1 = ConnectFails \<and> net 2 = ConnectFails \<longrightarrow>
          g' = g \<and> length (filter is_connect tr) = 3)"
  by (simp add: GraphiteBuffer_flush_cases Let_def split: fate.splits)

text \<open>
  Claim C3. A networked flush makes at most three delivery attempts, clears the buffer
  and stops at the first attempt whose send succeeds, and leaves the buffer as it was
  when all three fail; with a transport that fails on attempts 1 and 2 and succeeds on
  attempt 3, the buffer ends cleared after three connection attempts.

  The code does not do the last part when a failure is a send failure. Here the network
  accepts every connection, breaks the transfer in attempts 1 and 2 and would take the
  whole payload in attempt 3: the first failure closes the socket, attempts 2 and 3 call
  \<^verbatim>\<open>connect\<close> on the closed socket and fail, nothing is sent in attempt 3, and the
  buffer keeps its content.
\<close>

theorem GraphiteBuffer_flush_send_failure_not_retried:
  "GraphiteBuffer_flush ((\<lambda>attempt. Delivers)(0 := SendFails, 1 := SendFails)) 0
      \<lparr>messages = ''m'', server_and_port = (''graphite'', 2003)\<rparr>
   = (\<lparr>messages = ''m'', server_and_port = (''graphite'', 2003)\<rparr>,
      [SocketCreated 0,
       ConnectCalled 0 (''graphite'', 2003) True, SendallCalled 0 ''m\<newline>'' False,
       CloseCalled 0,
       ConnectCalled 0 (''graphite'', 2003) False,
       ConnectCalled 0 (''graphite'', 2003) False,
       CloseCalled 0])"
  by (simp add: GraphiteBuffer_flush_cases Let_def utf8_encode_m)




text \<open>
  Claim C10. Within one flush call a single socket is shared by all the attempts, and
  the socket is closed right after an attempt fails at send time; so once an attempt has
  failed during send, no later attempt of the call completes a send, every later
  \<^verbatim>\<open>connect\<close> fails, and the buffer is left as it was.
\<close>

theorem GraphiteBuffer_flush_shared_socket:
  "case GraphiteBuffer_flush net fd g of
     (g', tr) \<Rightarrow>
       filter is_created tr = [SocketCreated fd] \<and>
       (\<forall>e \<in> set tr. socket_of e = fd) \<and>
       (SendallCalled fd p False \<in> set tr \<longrightarrow>
          g' = g \<and>
          (\<forall>q. SendallCalled fd q True \<notin> set tr) \<and>
          (\<exists>before after.
             tr = before @ [SendallCalled fd p False, CloseCalled fd] @ after \<and>
             (\<forall>e \<in> set after.
                e = ConnectCalled fd (server_and_port g) False \<or> e = CloseCalled fd)))"
proof (cases "net 0")
  case Delivers
  then show ?thesis by (simp add: GraphiteBuffer_flush_cases Let_def)
next
  case SendFails
  then show ?thesis
    by (simp add: GraphiteBuffer_flush_cases Let_def)
      (intro impI,
       rule exI [of _ "[SocketCreated fd, ConnectCalled fd (server_and_port g) True]"],
       rule exI [of _ "[ConnectCalled fd (server_and_port g) False,
                        ConnectCalled fd (server_and_port g) False, CloseCalled fd]"],
       simp)
next
  case first: ConnectFails
  show ?thesis
  proof (cases "net 1")
    case Delivers
    with first show ?thesis by (simp add: GraphiteBuffer_flush_cases Let_def)
  next
    case SendFails
    with first show ?thesis
      by (simp add: GraphiteBuffer_flush_cases Let_def)
        (intro impI,
         rule exI [of _ "[SocketCreated fd, ConnectCalled fd (server_and_port g) False,
                          ConnectCalled fd (server_and_port g) True]"],
         rule exI [of _ "[ConnectCalled fd (server_and_port g) False, CloseCalled fd]"],
         simp)
  next
    case second: ConnectFails
    show ?thesis
    proof (cases "net 2")
      case Delivers
      with first second show ?thesis by (simp add: GraphiteBuffer_flush_cases Let_def)
    next
      case SendFails
      with first second show ?thesis
        by (simp add: GraphiteBuffer_flush_cases Let_def)
          (intro impI,
           rule exI [of _ "[SocketCreated fd, ConnectCalled fd (server_and_port g) False,
                            ConnectCalled fd (server_and_port g) False,
                            ConnectCalled fd (server_and_port g) True]"],
           rule exI [of _ "[CloseCalled fd]"],
           simp)
    next
      case ConnectFails
      with first second show ?thesis by (simp add: GraphiteBuffer_flush_cases Let_def)
    qed
  qed
qed

theorem GraphiteBuffer_flush_shared_socket_witness:
  "SendallCalled 5 ''m\<newline>'' False
     \<in> set (snd (GraphiteBuffer_flush ((\<lambda>attempt. Delivers)(0 := SendFails)) 5
               \<lparr>messages = ''m'', server_and_port = (''graphite'', 2003)\<rparr>)) \<and>
   fst (GraphiteBuffer_flush ((\<lambda>attempt. Delivers)(0 := SendFails)) 5
          \<lparr>messages = ''m'', server_and_port = (''graphite'', 2003)\<rparr>)
     = \<lparr>messages = ''m'', server_and_port = (''graphite'', 2003)\<rparr> \<and>
   SendallCalled 5 ''m\<newline>'' True
     \<notin> set (snd (GraphiteBuffer_flush ((\<lambda>attempt. Delivers)(0 := SendFails)) 5
               \<lparr>messages = ''m'', server_and_port = (''graphite'', 2003)\<rparr>))"
  using GraphiteBuffer_flush_shared_socket
    [where net = "(\<lambda>attempt. Delivers)(0 := SendFails)" and fd = 5
        and g = "\<lparr>messages = ''m'', server_and_port = (''graphite'', 2003)\<rparr>"
        and p = "''m\<newline>''"]
  by (simp add: GraphiteBuffer_flush_cases Let_def utf8_encode_m)

subsection \<open>The formatters\<close>

lemma py_format_human:
  "py_format ''{0} {2}[{1}]: {3}'' [a, b, c, d]
     = Some (a @ '' '' @ c @ ''['' @ b @ '']: '' @ d)"
  by (simp add: isdecimal_def digit_value_def)

lemma py_format_graphite:
  "py_format ''blockstat.{4}.{2}.{1} {3} {0}'' [a, b, c, d, e]
     = Some (''blockstat.'' @ e @ ''.'' @ c @ ''.'' @ b @ '' '' @ d @ '' '' @ a)"
  by (simp add: isdecimal_def digit_value_def)

text \<open>What \<^verbatim>\<open>str\<close> and \<^verbatim>\<open>format\<close> give for an integer: its decimal text within the
  digit limit, and \<^verbatim>\<open>ValueError\<close> beyond it.\<close>

lemma py_str_renderable: "renderable v \<Longrightarrow> py_str v = Some (decimal_repr v)"
  by (simp add: renderable_def py_str_def abs_if)

lemma py_str_not_renderable: "\<not> renderable v \<Longrightarrow> py_str v = None"
  by (simp add: renderable_def py_str_def abs_if)

lemma timestamp_str_renderable: "renderable_time t \<Longrightarrow> timestamp_str t = Some (time_repr t)"
  by (cases t) (simp_all add: py_str_renderable)

lemma HumanOutput_send_eq:
  "fromtimestamp (utcoffset h) (timestamp_value t) = Inr dt \<Longrightarrow> renderable v \<Longrightarrow>
   HumanOutput_send h buf t st b v
     = Returns (ASendBuffer_put
         (strftime dt @ '' '' @ b @ ''['' @ StatType_name st @ '']: '' @ decimal_repr v) buf)"
  unfolding HumanOutput_send_def py_format_human by (simp add: py_str_renderable)

lemma GraphiteOutput_send_eq:
  "renderable v \<Longrightarrow> renderable_time t \<Longrightarrow>
   GraphiteOutput_send h buf t st b v
     = Returns (ASendBuffer_put
         (''blockstat.'' @ takeWhile (\<lambda>c. c \<noteq> CHR ''.'') (gethostname h) @ ''.'' @ b @ ''.''
            @ StatType_name st @ '' '' @ decimal_repr v @ '' '' @ time_repr t) buf)"
  unfolding GraphiteOutput_send_def Let_def py_format_graphite
  by (simp add: py_str_renderable timestamp_str_renderable)

text \<open>A value beyond the digit limit makes both formatters raise, and leave the buffer as
  it was.\<close>

lemma HumanOutput_send_ValueError:
  "fromtimestamp (utcoffset h) (timestamp_value t) = Inr dt \<Longrightarrow> \<not> renderable v \<Longrightarrow>
   HumanOutput_send h buf t st b v = Raises ValueError buf"
  by (simp add: HumanOutput_send_def py_str_not_renderable)

lemma GraphiteOutput_send_ValueError:
  "\<not> renderable v \<Longrightarrow> GraphiteOutput_send h buf t st b v = Raises ValueError buf"
  by (simp add: GraphiteOutput_send_def Let_def py_str_not_renderable split: option.splits)

text \<open>The local time of an instant has a month from 1 to 12, a day from 1 to 31, and
  hours, minutes and seconds in range, so these five are rendered as two digits each; the
  year is rendered as four digits from the year 1000 on.\<close>

lemma div_bounds: "0 < k \<Longrightarrow> k * (x div k) \<le> x \<and> x < k * (x div k) + (k::int)"
  using pos_mod_sign [of k x] pos_mod_bound [of k x] mult_div_mod_eq [of k x] by linarith

lemma day_of_year_rough:
  assumes "0 \<le> doe" "doe < 146097"
  shows "- 61 \<le> day_of_year doe \<and> day_of_year doe \<le> 672"
proof -
  define a where "a = doe div 1460"
  define b where "b = doe div 36524"
  define c where "c = doe div 146096"
  define yoe where "yoe = (doe - a + b - c) div 365"
  define q4 where "q4 = yoe div 4"
  define q100 where "q100 = yoe div 100"
  have fa: "1460 * a \<le> doe \<and> doe < 1460 * a + 1460"
    using div_bounds [of 1460 doe] by (simp add: a_def)
  have fb: "36524 * b \<le> doe \<and> doe < 36524 * b + 36524"
    using div_bounds [of 36524 doe] by (simp add: b_def)
  have fc: "146096 * c \<le> doe \<and> doe < 146096 * c + 146096"
    using div_bounds [of 146096 doe] by (simp add: c_def)
  have fy: "365 * yoe \<le> doe - a + b - c \<and> doe - a + b - c < 365 * yoe + 365"
    using div_bounds [of 365 "doe - a + b - c"] by (simp add: yoe_def)
  have f4: "4 * q4 \<le> yoe \<and> yoe < 4 * q4 + 4"
    using div_bounds [of 4 yoe] by (simp add: q4_def)
  have f100: "100 * q100 \<le> yoe \<and> yoe < 100 * q100 + 100"
    using div_bounds [of 100 yoe] by (simp add: q100_def)
  have "day_of_year doe = doe - (365 * yoe + q4 - q100)"
    by (simp add: day_of_year_def year_of_era_def yoe_def a_def b_def c_def q4_def q100_def)
  moreover have "- 61 \<le> doe - (365 * yoe + q4 - q100) \<and> doe - (365 * yoe + q4 - q100) \<le> 672"
    using assms fa fb fc fy f4 f100 by linarith
  ultimately show ?thesis by simp
qed

lemma civil_from_days_bounds:
  assumes "civil_from_days z = (y, m, d)"
  shows "1 \<le> m \<and> m \<le> 12 \<and> 1 \<le> d \<and> d \<le> 31"
proof -
  define doy where "doy = day_of_year (day_of_era z)"
  define mp where "mp = month_from_march doy"
  define e where "e = (153 * mp + 2) div 5"
  have "0 \<le> day_of_era z \<and> day_of_era z < 146097"
    by (simp add: day_of_era_def)
  then have doy: "- 61 \<le> doy \<and> doy \<le> 672"
    using day_of_year_rough [of "day_of_era z"] by (simp add: doy_def)
  have m: "m = (if mp < 10 then mp + 3 else mp - 9)" and d: "d = doy - e + 1"
    using assms by (auto simp: civil_from_days_def Let_def doy_def mp_def e_def)
  have fm: "153 * mp \<le> 5 * doy + 2 \<and> 5 * doy + 2 < 153 * mp + 153"
    using div_bounds [of 153 "5 * doy + 2"] by (simp add: mp_def month_from_march_def)
  have fe: "5 * e \<le> 153 * mp + 2 \<and> 153 * mp + 2 < 5 * e + 5"
    using div_bounds [of 5 "153 * mp + 2"] by (simp add: e_def)
  have "1 \<le> d \<and> d \<le> 31" using fm fe d by linarith
  moreover have "1 \<le> m \<and> m \<le> 12" using doy fm m by (auto split: if_splits)
  ultimately show ?thesis by simp
qed

lemma local_time_fields:
  assumes "local_time tz t = Inr dt"
  shows "1 \<le> year dt \<and> year dt \<le> 9999 \<and> 1 \<le> month dt \<and> month dt \<le> 12 \<and>
         1 \<le> day dt \<and> day dt \<le> 31 \<and> 0 \<le> hour dt \<and> hour dt \<le> 23 \<and>
         0 \<le> minute dt \<and> minute dt \<le> 59 \<and> 0 \<le> second dt \<and> second dt \<le> 59"
proof -
  obtain y m d where c: "civil_from_days ((t + tz t) div 86400) = (y, m, d)"
    by (cases "civil_from_days ((t + tz t) div 86400)") auto
  define s where "s = (t + tz t) mod 86400"
  have s: "0 \<le> s \<and> s < 86400" by (simp add: s_def)
  from assms c have y: "1 \<le> y \<and> y \<le> 9999"
    and dt: "dt = \<lparr>year = y, month = m, day = d, hour = s div 3600,
                    minute = s mod 3600 div 60, second = s mod 60\<rparr>"
    by (auto simp: local_time_def Let_def s_def split: if_splits)
  have "0 \<le> s div 3600 \<and> s div 3600 \<le> 23"
    using s div_bounds [of 3600 s] by linarith
  moreover have "0 \<le> s mod 3600 div 60 \<and> s mod 3600 div 60 \<le> 59"
    using div_bounds [of 60 "s mod 3600"] pos_mod_sign [of 3600 s] pos_mod_bound [of 3600 s]
    by linarith
  moreover have "0 \<le> s mod 60 \<and> s mod 60 \<le> 59"
    using pos_mod_sign [of 60 s] pos_mod_bound [of 60 s] by linarith
  ultimately show ?thesis
    using y civil_from_days_bounds [OF c] by (simp add: dt)
qed

text \<open>When \<^verbatim>\<open>fromtimestamp\<close> returns, it returns the local time of its argument, which
  the zone's offset at that instant determines.\<close>

lemma fromtimestamp_local_time: "fromtimestamp tz t = Inr dt \<Longrightarrow> local_time tz t = Inr dt"
  by (auto simp: fromtimestamp_def Let_def split: sum.splits if_splits)

lemma local_time_offset: "tz1 t = tz2 t \<Longrightarrow> local_time tz1 t = local_time tz2 t"
  by (simp add: local_time_def)

lemma fromtimestamp_fields:
  assumes "fromtimestamp tz t = Inr dt"
  shows "1 \<le> year dt \<and> year dt \<le> 9999 \<and> 1 \<le> month dt \<and> month dt \<le> 12 \<and>
         1 \<le> day dt \<and> day dt \<le> 31 \<and> 0 \<le> hour dt \<and> hour dt \<le> 23 \<and>
         0 \<le> minute dt \<and> minute dt \<le> 59 \<and> 0 \<le> second dt \<and> second dt \<le> 59"
  using assms by (intro local_time_fields [of tz t] fromtimestamp_local_time)

lemma digit_char_isdecimal: "0 \<le> k \<Longrightarrow> k < 10 \<Longrightarrow> isdecimal (''0123456789'' ! nat k)"
proof -
  assume "0 \<le> k" "k < 10"
  then have "k = 0 \<or> k = 1 \<or> k = 2 \<or> k = 3 \<or> k = 4 \<or> k = 5 \<or> k = 6 \<or> k = 7 \<or> k = 8 \<or> k = 9"
    by arith
  then show ?thesis
    by (auto simp: isdecimal_def)
qed

lemma decimal_digits_isdecimal: "0 \<le> n \<Longrightarrow> list_all isdecimal (decimal_digits n)"
proof (induction n rule: decimal_digits.induct)
  case (1 n)
  show ?case
  proof (cases "n < 10")
    case True
    with "1.prems" show ?thesis
      by (simp add: decimal_digits.simps [of n] digit_char_isdecimal)
  next
    case False
    with "1.prems" have "list_all isdecimal (decimal_digits (n div 10))"
      by (intro "1.IH") simp_all
    moreover have "isdecimal (''0123456789'' ! nat (n mod 10))"
      by (intro digit_char_isdecimal) simp_all
    ultimately show ?thesis using False
      by (simp add: decimal_digits.simps [of n])
  qed
qed

lemma decimal_digits_length:
  "0 \<le> n \<Longrightarrow> n < 10 ^ k \<Longrightarrow> 0 < k \<Longrightarrow> length (decimal_digits n) \<le> k"
proof (induction n arbitrary: k rule: decimal_digits.induct)
  case (1 n)
  show ?case
  proof (cases "n < 10")
    case True
    with "1.prems" show ?thesis
      by (simp add: decimal_digits.simps [of n] Suc_leI)
  next
    case False
    with "1.prems" obtain j where k: "k = Suc j" and j: "0 < j"
      by (cases k; cases "k - 1") auto
    with "1.prems" have "n < 10 * 10 ^ j"
      by simp
    then have "n div 10 < 10 ^ j"
      using div_bounds [of 10 n] by linarith
    with False "1.prems" j have "length (decimal_digits (n div 10)) \<le> j"
      by (intro "1.IH") simp_all
    then show ?thesis using False k
      by (simp add: decimal_digits.simps [of n])
  qed
qed

text \<open>Every integer below \<open>10 ^ 4300\<close> in magnitude is within the digit limit.\<close>

lemma renderable_bound: "\<bar>v\<bar> < 10 ^ nat int_max_str_digits \<Longrightarrow> renderable v"
proof -
  assume "\<bar>v\<bar> < 10 ^ nat int_max_str_digits"
  moreover have "0 < nat int_max_str_digits"
    by (simp add: int_max_str_digits_def)
  ultimately have "length (decimal_digits \<bar>v\<bar>) \<le> nat int_max_str_digits"
    by (intro decimal_digits_length) simp_all
  then show ?thesis
    by (simp add: renderable_def int_max_str_digits_def)
qed

text \<open>A year from 1000 to 9999 has four digits.\<close>

lemma decimal_digits_year:
  assumes "1000 \<le> n" "n \<le> 9999"
  shows "length (decimal_digits n) = 4"
proof -
  define a where "a = n div 10"
  define b where "b = a div 10"
  define c where "c = b div 10"
  have fa: "10 * a \<le> n \<and> n < 10 * a + 10"
    using div_bounds [of 10 n] by (simp add: a_def)
  have fb: "10 * b \<le> a \<and> a < 10 * b + 10"
    using div_bounds [of 10 a] by (simp add: b_def)
  have fc: "10 * c \<le> b \<and> b < 10 * c + 10"
    using div_bounds [of 10 b] by (simp add: c_def)
  have n: "\<not> n < 10" and a: "\<not> a < 10" and b: "\<not> b < 10" and c: "c < 10"
    using assms fa fb fc by linarith+
  have "length (decimal_digits c) = 1"
    using c by (simp add: decimal_digits.simps [of c])
  then have "length (decimal_digits b) = 2"
    using b by (simp add: decimal_digits.simps [of b] c_def)
  then have "length (decimal_digits a) = 3"
    using a by (simp add: decimal_digits.simps [of a] b_def)
  then show ?thesis
    using n by (simp add: decimal_digits.simps [of n] a_def)
qed

lemma zero_padded_digits:
  assumes "0 \<le> n" "n < 10 ^ w" "0 < w"
  shows "length (zero_padded w n) = w \<and> list_all isdecimal (zero_padded w n)"
proof -
  have "length (decimal_digits n) \<le> w"
    using assms by (rule decimal_digits_length)
  moreover have "list_all isdecimal (decimal_digits n)"
    using assms(1) by (rule decimal_digits_isdecimal)
  moreover have "isdecimal (CHR ''0'')" by (simp add: isdecimal_def)
  ultimately show ?thesis
    by (auto simp: zero_padded_def list_all_iff)
qed

lemma matches_digits:
  "list_all isdecimal s \<Longrightarrow> matches (replicate (length s) (CHR ''d'')) s"
  by (induction s) auto

lemma matches_append:
  "matches p s \<Longrightarrow> matches q t \<Longrightarrow> matches (p @ q) (s @ t)"
  by (induction p s rule: matches.induct) auto

lemma matches_zero_padded:
  "0 \<le> n \<Longrightarrow> n < 10 ^ w \<Longrightarrow> 0 < w \<Longrightarrow> matches (replicate w (CHR ''d'')) (zero_padded w n)"
  using zero_padded_digits [of n w] matches_digits [of "zero_padded w n"] by simp

lemma strftime_shape:
  assumes "fromtimestamp tz t = Inr dt" "1000 \<le> year dt"
  shows "matches ''dddd-dd-dd dd:dd:dd'' (strftime dt)"
proof -
  note f = fromtimestamp_fields [OF assms(1)]
  have "length (decimal_digits (year dt)) = 4"
    using f assms(2) by (intro decimal_digits_year) simp_all
  moreover have "list_all isdecimal (decimal_digits (year dt))"
    using f by (intro decimal_digits_isdecimal) simp
  ultimately have y: "matches (replicate 4 (CHR ''d'')) (decimal_digits (year dt))"
    using matches_digits [of "decimal_digits (year dt)"] by simp
  have m: "matches (replicate 2 (CHR ''d'')) (zero_padded 2 (month dt))"
    using f by (intro matches_zero_padded) simp_all
  have d: "matches (replicate 2 (CHR ''d'')) (zero_padded 2 (day dt))"
    using f by (intro matches_zero_padded) simp_all
  have h: "matches (replicate 2 (CHR ''d'')) (zero_padded 2 (hour dt))"
    using f by (intro matches_zero_padded) simp_all
  have mi: "matches (replicate 2 (CHR ''d'')) (zero_padded 2 (minute dt))"
    using f by (intro matches_zero_padded) simp_all
  have s: "matches (replicate 2 (CHR ''d'')) (zero_padded 2 (second dt))"
    using f by (intro matches_zero_padded) simp_all
  have dash: "matches ''-'' ''-''" and space: "matches '' '' '' ''" and colon: "matches '':'' '':''"
    by simp_all
  have "matches (replicate 4 (CHR ''d'') @ ''-'' @ replicate 2 (CHR ''d'') @ ''-''
          @ replicate 2 (CHR ''d'') @ '' '' @ replicate 2 (CHR ''d'') @ '':''
          @ replicate 2 (CHR ''d'') @ '':'' @ replicate 2 (CHR ''d''))
        (strftime dt)"
    unfolding strftime_def
    by (intro matches_append y m d h mi s dash space colon)
  then show ?thesis by (simp add: eval_nat_numeral)
qed

text \<open>Before the year 1000 the year has fewer digits, and the day on which the year 1
  begins has no local time that \<^verbatim>\<open>fromtimestamp\<close> returns: the instant one day earlier
  is out of range.\<close>

lemma strftime_year_999:
  "strftime \<lparr>year = 999, month = 12, day = 31, hour = 23, minute = 59, second = 59\<rparr>
     = ''999-12-31 23:59:59''"
  by code_simp

lemma fromtimestamp_first_day:
  "local_time (\<lambda>t. 0) (- 62135596800)
     = Inr \<lparr>year = 1, month = 1, day = 1, hour = 0, minute = 0, second = 0\<rparr> \<and>
   fromtimestamp (\<lambda>t. 0) (- 62135596800) = Inl TimeOutOfRange"
  by code_simp

text \<open>
  Claim C2, as stated: in human mode the line is
  \<^verbatim>\<open><YYYY-MM-DD HH:MM:SS> <CounterName>[<device>]: <value>\<close>, the counter's name before
  the brackets and the device inside them. For the device \<^verbatim>\<open>sda\<close>, the counter
  \<^verbatim>\<open>read_io\<close> with value 42, collected at 1000000000 on a host on UTC, that would be
  \<^verbatim>\<open>2001-09-09 01:46:40 read_io[sda]: 42\<close>; the code puts the device first.
\<close>

theorem HumanOutput_send_device_first:
  "HumanOutput_send \<lparr>utcoffset = (\<lambda>t. 0), gethostname = ''h''\<rparr> StdoutBuffer_init
      (Seconds 1000000000) read_io ''sda'' 42
     = Returns \<lparr>messages = ''2001-09-09 01:46:40 sda[read_io]: 42''\<rparr> \<and>
   HumanOutput_send \<lparr>utcoffset = (\<lambda>t. 0), gethostname = ''h''\<rparr> StdoutBuffer_init
      (Seconds 1000000000) read_io ''sda'' 42
     \<noteq> Returns \<lparr>messages = ''2001-09-09 01:46:40 read_io[sda]: 42''\<rparr>"
  by code_simp

text \<open>
  Claim C2, amended. In human mode the line put for a counter is
  \<^verbatim>\<open><YYYY-MM-DD HH:MM:SS> <device>[<CounterName>]: <value>\<close>: the local time of the
  sample, written as four digits, two digits and two digits joined by dashes, a space,
  and three times two digits joined by colons; then a space, the device name, the
  counter's symbolic name in brackets, a colon and a space, and the value in decimal.
  This holds for every buffer, device and counter, every value within the digit limit of
  \<^verbatim>\<open>str\<close>, and every time that \<^verbatim>\<open>fromtimestamp\<close> accepts and whose local year is in
  1000 to 9999.
\<close>

theorem HumanOutput_send_line:
  "fromtimestamp (utcoffset h) (timestamp_value t) = Inr dt \<Longrightarrow> 1000 \<le> year dt \<Longrightarrow>
   renderable v \<Longrightarrow>
   HumanOutput_send h buf t st b v
     = Returns (ASendBuffer_put
         (strftime dt @ '' '' @ b @ ''['' @ StatType_name st @ '']: '' @ decimal_repr v) buf) \<and>
   matches ''dddd-dd-dd dd:dd:dd'' (strftime dt)"
  by (simp add: HumanOutput_send_eq strftime_shape)

theorem HumanOutput_send_line_witness:
  "fromtimestamp (utcoffset \<lparr>utcoffset = (\<lambda>t. 3600), gethostname = ''h''\<rparr>)
      (timestamp_value (Seconds 1000000000))
     = Inr \<lparr>year = 2001, month = 9, day = 9, hour = 2, minute = 46, second = 40\<rparr> \<and>
   1000 \<le> year \<lparr>year = 2001, month = 9, day = 9, hour = 2, minute = 46, second = 40\<rparr> \<and>
   renderable 7 \<and>
   HumanOutput_send \<lparr>utcoffset = (\<lambda>t. 3600), gethostname = ''h''\<rparr> \<lparr>messages = ''x''\<rparr>
      (Seconds 1000000000) io_ticks ''loop0'' 7
     = Returns \<lparr>messages = ''x\<newline>2001-09-09 02:46:40 loop0[io_ticks]: 7''\<rparr> \<and>
   strftime \<lparr>year = 2001, month = 9, day = 9, hour = 2, minute = 46, second = 40\<rparr>
     = ''2001-09-09 02:46:40'' \<and>
   matches ''dddd-dd-dd dd:dd:dd'' ''2001-09-09 02:46:40''"
proof -
  have dt: "fromtimestamp (utcoffset \<lparr>utcoffset = (\<lambda>t. 3600), gethostname = ''h''\<rparr>)
      (timestamp_value (Seconds 1000000000))
     = Inr \<lparr>year = 2001, month = 9, day = 9, hour = 2, minute = 46, second = 40\<rparr>"
    by code_simp
  have y: "1000 \<le> year \<lparr>year = 2001, month = 9, day = 9, hour = 2, minute = 46, second = 40\<rparr>"
    by simp
  have v: "renderable 7"
    by code_simp
  have rendered: "strftime \<lparr>year = 2001, month = 9, day = 9, hour = 2, minute = 46, second = 40\<rparr>
     = ''2001-09-09 02:46:40''"
    by code_simp
  have "ASendBuffer_put
          (''2001-09-09 02:46:40'' @ '' '' @ ''loop0'' @ ''['' @ StatType_name io_ticks @ '']: ''
             @ decimal_repr 7)
          \<lparr>messages = ''x''\<rparr>
        = \<lparr>messages = ''x\<newline>2001-09-09 02:46:40 loop0[io_ticks]: 7''\<rparr>"
    by code_simp
  with HumanOutput_send_line [OF dt y v, of "\<lparr>messages = ''x''\<rparr>" io_ticks "''loop0''"]
    dt y v rendered
  show ?thesis by simp
qed

text \<open>
  Claim C7. In machine mode the line put for a counter is
  \<^verbatim>\<open>blockstat.<short-hostname>.<device>.<CounterName> <value> <unix-timestamp>\<close>, the
  short host name being the host name up to its first dot, for every value and time
  within the digit limit of \<^verbatim>\<open>format\<close>; the device \<^verbatim>\<open>sda\<close>, the counter \<^verbatim>\<open>read_io\<close>
  with value 42, the time 1000000000 and the host \<^verbatim>\<open>h\<close> give
  \<^verbatim>\<open>blockstat.h.sda.read_io 42 1000000000\<close>. A flush hands to \<^verbatim>\<open>sendall\<close> the bytes of
  the buffered text followed by one more newline, and nothing else: once, unless all
  three connections are refused; and the server receives exactly that, once, when the
  first connection that is not refused takes the transfer.
\<close>

theorem GraphiteOutput_send_line:
  "(renderable v \<and> renderable t \<longrightarrow>
      GraphiteOutput_send h buf (Seconds t) st b v
        = Returns (ASendBuffer_put
            (''blockstat.'' @ takeWhile (\<lambda>c. c \<noteq> CHR ''.'') (gethostname h) @ ''.'' @ b @ ''.''
               @ StatType_name st @ '' '' @ decimal_repr v @ '' '' @ decimal_repr t) buf)) \<and>
   GraphiteOutput_send \<lparr>utcoffset = (\<lambda>t. 0), gethostname = ''h''\<rparr> StdoutBuffer_init
      (Seconds 1000000000) read_io ''sda'' 42
     = Returns \<lparr>messages = ''blockstat.h.sda.read_io 42 1000000000''\<rparr> \<and>
   payloads (snd (GraphiteBuffer_flush net fd g))
     = (if net 0 = ConnectFails \<and> net 1 = ConnectFails \<and> net 2 = ConnectFails then []
        else [utf8_encode (ASendBuffer_get_messages g) @ ''\<newline>'']) \<and>
   delivered (snd (GraphiteBuffer_flush net fd g))
     = (if net 0 = Delivers \<or>
           net 0 = ConnectFails \<and> (net 1 = Delivers \<or> net 1 = ConnectFails \<and> net 2 = Delivers)
        then [utf8_encode (ASendBuffer_get_messages g) @ ''\<newline>'']
        else [])"
proof -
  have line: "GraphiteOutput_send h buf (Seconds t) st b v
        = Returns (ASendBuffer_put
            (''blockstat.'' @ takeWhile (\<lambda>c. c \<noteq> CHR ''.'') (gethostname h) @ ''.'' @ b @ ''.''
               @ StatType_name st @ '' '' @ decimal_repr v @ '' '' @ decimal_repr t) buf)"
    if "renderable v" "renderable t"
    using that GraphiteOutput_send_eq [of v "Seconds t" h buf st b] by simp
  have example: "GraphiteOutput_send \<lparr>utcoffset = (\<lambda>t. 0), gethostname = ''h''\<rparr> StdoutBuffer_init
      (Seconds 1000000000) read_io ''sda'' 42
     = Returns \<lparr>messages = ''blockstat.h.sda.read_io 42 1000000000''\<rparr>"
    by code_simp
  have handed: "payloads (snd (GraphiteBuffer_flush net fd g))
     = (if net 0 = ConnectFails \<and> net 1 = ConnectFails \<and> net 2 = ConnectFails then []
        else [utf8_encode (ASendBuffer_get_messages g) @ ''\<newline>''])"
    by (simp add: GraphiteBuffer_flush_cases Let_def ASendBuffer_get_messages_def
        utf8_encode_newline split: fate.splits)
  have received: "delivered (snd (GraphiteBuffer_flush net fd g))
     = (if net 0 = Delivers \<or>
           net 0 = ConnectFails \<and> (net 1 = Delivers \<or> net 1 = ConnectFails \<and> net 2 = Delivers)
        then [utf8_encode (ASendBuffer_get_messages g) @ ''\<newline>'']
        else [])"
    by (simp add: GraphiteBuffer_flush_cases Let_def ASendBuffer_get_messages_def
        utf8_encode_newline split: fate.splits)
  from line example handed received show ?thesis
    by blast
qed

theorem GraphiteOutput_send_line_witness:
  "renderable 42 \<and> renderable 1000000000 \<and>
   GraphiteOutput_send \<lparr>utcoffset = (\<lambda>t. 0), gethostname = ''h.example.org''\<rparr>
      \<lparr>messages = ''x''\<rparr> (Seconds 1000000000) time_in_queue ''sda'' 42
     = Returns \<lparr>messages = ''x\<newline>blockstat.h.sda.time_in_queue 42 1000000000''\<rparr> \<and>
   payloads (snd (GraphiteBuffer_flush (\<lambda>attempt. Delivers) 0
      \<lparr>messages = ''blockstat.h.sda.read_io 42 1000000000'',
        server_and_port = (''graphite'', 2003)\<rparr>))
     = [''blockstat.h.sda.read_io 42 1000000000\<newline>''] \<and>
   delivered (snd (GraphiteBuffer_flush (\<lambda>attempt. Delivers) 0
      \<lparr>messages = ''blockstat.h.sda.read_io 42 1000000000'',
        server_and_port = (''graphite'', 2003)\<rparr>))
     = [''blockstat.h.sda.read_io 42 1000000000\<newline>'']"
proof -
  have v: "renderable 42" and t: "renderable 1000000000"
    by code_simp+
  have put: "ASendBuffer_put
          (''blockstat.'' @ takeWhile (\<lambda>c. c \<noteq> CHR ''.'') ''h.example.org'' @ ''.'' @ ''sda''
             @ ''.'' @ StatType_name time_in_queue @ '' '' @ decimal_repr 42 @ '' ''
             @ decimal_repr 1000000000)
          \<lparr>messages = ''x''\<rparr>
        = \<lparr>messages = ''x\<newline>blockstat.h.sda.time_in_queue 42 1000000000''\<rparr>"
    by code_simp
  have bytes: "utf8_encode ''blockstat.h.sda.read_io 42 1000000000''
        = ''blockstat.h.sda.read_io 42 1000000000''"
    by code_simp
  from GraphiteOutput_send_line
    [where h = "\<lparr>utcoffset = (\<lambda>t. 0), gethostname = ''h.example.org''\<rparr>"
       and buf = "\<lparr>messages = ''x''\<rparr>" and t = 1000000000 and st = time_in_queue
       and b = "''sda''" and v = 42 and net = "\<lambda>attempt. Delivers"
       and fd = 0
       and g = "\<lparr>messages = ''blockstat.h.sda.read_io 42 1000000000'',
                  server_and_port = (''graphite'', 2003)\<rparr>"]
    v t put bytes
  show ?thesis by (simp add: ASendBuffer_get_messages_def)
qed

text \<open>
  Claim C8, as stated: two calls of a formatter with equal timestamp, counter, device
  and value put equal lines, whatever the ambient state. The machine formatter reads the
  host name and the human formatter the host's time zone: on hosts named \<^verbatim>\<open>alpha\<close> and
  \<^verbatim>\<open>beta\<close>, and in zones on UTC and one hour east of it, the same four arguments give
  different lines.
\<close>

theorem send_depends_on_ambient_state:
  "GraphiteOutput_send \<lparr>utcoffset = (\<lambda>t. 0), gethostname = ''alpha''\<rparr> StdoutBuffer_init
      (Seconds 1000000000) read_io ''sda'' 42
     = Returns \<lparr>messages = ''blockstat.alpha.sda.read_io 42 1000000000''\<rparr> \<and>
   GraphiteOutput_send \<lparr>utcoffset = (\<lambda>t. 0), gethostname = ''beta''\<rparr> StdoutBuffer_init
      (Seconds 1000000000) read_io ''sda'' 42
     = Returns \<lparr>messages = ''blockstat.beta.sda.read_io 42 1000000000''\<rparr> \<and>
   HumanOutput_send \<lparr>utcoffset = (\<lambda>t. 0), gethostname = ''alpha''\<rparr> StdoutBuffer_init
      (Seconds 1000000000) read_io ''sda'' 42
     = Returns \<lparr>messages = ''2001-09-09 01:46:40 sda[read_io]: 42''\<rparr> \<and>
   HumanOutput_send \<lparr>utcoffset = (\<lambda>t. 3600), gethostname = ''alpha''\<rparr> StdoutBuffer_init
      (Seconds 1000000000) read_io ''sda'' 42
     = Returns \<lparr>messages = ''2001-09-09 02:46:40 sda[read_io]: 42''\<rparr>"
  by code_simp

text \<open>
  Claim C8, amended. Formatting a valid sample, one whose value and time are within the
  digit limit and, in human mode, whose time \<^verbatim>\<open>fromtimestamp\<close> accepts, returns and does
  nothing but put one line; and the line is a function of the timestamp, the counter, the
  device, the value and one ambient value: in machine mode the host's short name, in
  human mode the zone's offset at the sample's time. Two calls that agree on these put
  the same line, whatever the buffers hold and whatever else differs between the hosts.
\<close>

theorem send_determined_by_arguments_and_host:
  "(takeWhile (\<lambda>c. c \<noteq> CHR ''.'') (gethostname h1)
      = takeWhile (\<lambda>c. c \<noteq> CHR ''.'') (gethostname h2) \<and>
    renderable v \<and> renderable_time t \<longrightarrow>
    (\<exists>line. GraphiteOutput_send h1 buf1 t st b v = Returns (ASendBuffer_put line buf1) \<and>
            GraphiteOutput_send h2 buf2 t st b v = Returns (ASendBuffer_put line buf2))) \<and>
   (utcoffset h1 (timestamp_value t) = utcoffset h2 (timestamp_value t) \<and>
    fromtimestamp (utcoffset h1) (timestamp_value t) = Inr dt1 \<and>
    fromtimestamp (utcoffset h2) (timestamp_value t) = Inr dt2 \<and>
    renderable v \<longrightarrow>
    (\<exists>line. HumanOutput_send h1 buf1 t st b v = Returns (ASendBuffer_put line buf1) \<and>
            HumanOutput_send h2 buf2 t st b v = Returns (ASendBuffer_put line buf2)))"
proof (intro conjI impI)
  assume "takeWhile (\<lambda>c. c \<noteq> CHR ''.'') (gethostname h1)
      = takeWhile (\<lambda>c. c \<noteq> CHR ''.'') (gethostname h2) \<and>
    renderable v \<and> renderable_time t"
  then show "\<exists>line. GraphiteOutput_send h1 buf1 t st b v = Returns (ASendBuffer_put line buf1) \<and>
            GraphiteOutput_send h2 buf2 t st b v = Returns (ASendBuffer_put line buf2)"
    by (simp add: GraphiteOutput_send_eq) blast
next
  assume a: "utcoffset h1 (timestamp_value t) = utcoffset h2 (timestamp_value t) \<and>
    fromtimestamp (utcoffset h1) (timestamp_value t) = Inr dt1 \<and>
    fromtimestamp (utcoffset h2) (timestamp_value t) = Inr dt2 \<and>
    renderable v"
  then have "local_time (utcoffset h1) (timestamp_value t) = Inr dt1"
    and "local_time (utcoffset h2) (timestamp_value t) = Inr dt2"
    by (simp_all add: fromtimestamp_local_time)
  moreover from a have "local_time (utcoffset h1) (timestamp_value t)
      = local_time (utcoffset h2) (timestamp_value t)"
    by (intro local_time_offset) simp
  ultimately have "dt2 = dt1"
    by simp
  with a show "\<exists>line. HumanOutput_send h1 buf1 t st b v = Returns (ASendBuffer_put line buf1) \<and>
            HumanOutput_send h2 buf2 t st b v = Returns (ASendBuffer_put line buf2)"
    by (simp add: HumanOutput_send_eq) blast
qed

theorem send_determined_by_arguments_and_host_witness:
  "takeWhile (\<lambda>c. c \<noteq> CHR ''.'') ''h.example.org''
     = takeWhile (\<lambda>c. c \<noteq> CHR ''.'') ''h.example.com'' \<and>
   renderable 42 \<and> renderable_time (Seconds 1000000000) \<and>
   fromtimestamp (\<lambda>t. 0) 1000000000
     = Inr \<lparr>year = 2001, month = 9, day = 9, hour = 1, minute = 46, second = 40\<rparr> \<and>
   fromtimestamp (\<lambda>t. if t < 0 then 3600 else 0) 1000000000
     = Inr \<lparr>year = 2001, month = 9, day = 9, hour = 1, minute = 46, second = 40\<rparr> \<and>
   GraphiteOutput_send \<lparr>utcoffset = (\<lambda>t. 0), gethostname = ''h.example.org''\<rparr>
      \<lparr>messages = ''x''\<rparr> (Seconds 1000000000) read_io ''sda'' 42
     = Returns \<lparr>messages = ''x\<newline>blockstat.h.sda.read_io 42 1000000000''\<rparr> \<and>
   GraphiteOutput_send \<lparr>utcoffset = (\<lambda>t. if t < 0 then 3600 else 0), gethostname = ''h.example.com''\<rparr>
      \<lparr>messages = ''''\<rparr> (Seconds 1000000000) read_io ''sda'' 42
     = Returns \<lparr>messages = ''blockstat.h.sda.read_io 42 1000000000''\<rparr> \<and>
   HumanOutput_send \<lparr>utcoffset = (\<lambda>t. 0), gethostname = ''h.example.org''\<rparr>
      \<lparr>messages = ''x''\<rparr> (Seconds 1000000000) read_io ''sda'' 42
     = Returns \<lparr>messages = ''x\<newline>2001-09-09 01:46:40 sda[read_io]: 42''\<rparr> \<and>
   HumanOutput_send \<lparr>utcoffset = (\<lambda>t. if t < 0 then 3600 else 0), gethostname = ''h.example.com''\<rparr>
      \<lparr>messages = ''''\<rparr> (Seconds 1000000000) read_io ''sda'' 42
     = Returns \<lparr>messages = ''2001-09-09 01:46:40 sda[read_io]: 42''\<rparr>"
  (is "?evaluated")
proof -
  have evaluated: ?evaluated
    by code_simp
  with send_determined_by_arguments_and_host
    [where ?h1.0 = "\<lparr>utcoffset = (\<lambda>t. 0), gethostname = ''h.example.org''\<rparr>"
       and ?h2.0 = "\<lparr>utcoffset = (\<lambda>t. if t < 0 then 3600 else 0),
                       gethostname = ''h.example.com''\<rparr>"
       and t = "Seconds 1000000000" and ?buf1.0 = "\<lparr>messages = ''x''\<rparr>"
       and ?buf2.0 = "\<lparr>messages = ''''\<rparr>" and st = read_io and b = "''sda''" and v = 42
       and ?dt1.0 = "\<lparr>year = 2001, month = 9, day = 9, hour = 1, minute = 46, second = 40\<rparr>"
       and ?dt2.0 = "\<lparr>year = 2001, month = 9, day = 9, hour = 1, minute = 46, second = 40\<rparr>"]
  show ?thesis by simp
qed

subsection \<open>The collector\<close>

text \<open>An unreadable stat file: \<^verbatim>\<open>collect\<close> returns, with the time set to \<^verbatim>\<open>0.0\<close> and
  \<^verbatim>\<open>_stats\<close> as it was before the call.\<close>

lemma BlockStat_collect_IOError:
  "BlockStat_collect now IOError self = Returns (self\<lparr>self_time := ZeroFloat\<rparr>)"
  by (simp add: BlockStat_collect_def)

text \<open>
  Claim C1. When the stat file cannot be read, \<^verbatim>\<open>collect\<close> returns without raising
  and leaves the sample in the unavailable state, time zero and no values, whatever the
  object held before.

  The code does return, and does reset the time, but keeps the values of the last
  successful read: the handler assigns the empty dictionary to a local name. Here the
  device \<^verbatim>\<open>sda\<close> is read at time 1000 and cannot be read at time 1060.
\<close>

theorem BlockStat_collect_unreadable_keeps_stats:
  "BlockStat_collect 1000 (Content ''5 0 0 0 0 0 0 0 0 0 7\<newline>'') (BlockStat_init ''sda'')
     = Returns \<lparr>self_block = ''sda'',
         self_stats = [(read_io, 5), (read_merges, 0), (read_sectors, 0), (read_ticks, 0),
                       (write_io, 0), (write_merges, 0), (write_sectors, 0), (write_ticks, 0),
                       (in_flight, 0), (io_ticks, 0), (time_in_queue, 7)],
         self_time = Seconds 1000\<rparr> \<and>
   BlockStat_collect 1060 IOError
       \<lparr>self_block = ''sda'',
         self_stats = [(read_io, 5), (read_merges, 0), (read_sectors, 0), (read_ticks, 0),
                       (write_io, 0), (write_merges, 0), (write_sectors, 0), (write_ticks, 0),
                       (in_flight, 0), (io_ticks, 0), (time_in_queue, 7)],
         self_time = Seconds 1000\<rparr>
     = Returns \<lparr>self_block = ''sda'',
         self_stats = [(read_io, 5), (read_merges, 0), (read_sectors, 0), (read_ticks, 0),
                       (write_io, 0), (write_merges, 0), (write_sectors, 0), (write_ticks, 0),
                       (in_flight, 0), (io_ticks, 0), (time_in_queue, 7)],
         self_time = ZeroFloat\<rparr>"
  by code_simp

text \<open>The values kept by the failed read are formatted again in the same cycle, with the
  time \<^verbatim>\<open>0.0\<close>.\<close>

lemma BlockStat_sendto_stale_values:
  "BlockStat_sendto
      \<lparr>self_block = ''sda'',
        self_stats = [(read_io, 5), (read_merges, 0), (read_sectors, 0), (read_ticks, 0),
                      (write_io, 0), (write_merges, 0), (write_sectors, 0), (write_ticks, 0),
                      (in_flight, 0), (io_ticks, 0), (time_in_queue, 7)],
        self_time = ZeroFloat\<rparr>
      GraphiteOutput \<lparr>utcoffset = (\<lambda>t. 0), gethostname = ''h''\<rparr> StdoutBuffer_init
     = Returns \<lparr>messages =
         ''blockstat.h.sda.read_io 5 0.0\<newline>blockstat.h.sda.read_merges 0 0.0\<newline>blockstat.h.sda.read_sectors 0 0.0\<newline>blockstat.h.sda.read_ticks 0 0.0\<newline>blockstat.h.sda.write_io 0 0.0\<newline>blockstat.h.sda.write_merges 0 0.0\<newline>blockstat.h.sda.write_sectors 0 0.0\<newline>blockstat.h.sda.write_ticks 0 0.0\<newline>blockstat.h.sda.in_flight 0 0.0\<newline>blockstat.h.sda.io_ticks 0 0.0\<newline>blockstat.h.sda.time_in_queue 7 0.0''\<rparr>"
  by code_simp

subsection \<open>Parsing a record\<close>

lemma isdecimal_not_isspace: "isdecimal c \<Longrightarrow> \<not> isspace c"
  by (auto simp: isdecimal_def isspace_def)

lemma isdecimal_not_sign: "isdecimal c \<Longrightarrow> c \<noteq> CHR ''-'' \<and> c \<noteq> CHR ''+''"
  by (auto simp: isdecimal_def)

lemma decimal_field_solid: "decimal_field f \<Longrightarrow> solid f"
  by (auto simp: decimal_field_def solid_def list_all_iff isdecimal_not_isspace)

lemma lstrip_solid: "solid f \<Longrightarrow> lstrip (f @ rest) = f @ rest"
  by (cases f) (auto simp: solid_def lstrip_def)

lemma rstrip_solid: "solid f \<Longrightarrow> rstrip (rest @ f) = rest @ f"
  by (cases f rule: rev_cases) (auto simp: solid_def rstrip_def)

lemma lstrip_whitespace: "whitespace ws \<Longrightarrow> lstrip (ws @ rest) = lstrip rest"
  by (simp add: whitespace_def lstrip_def list_all_iff dropWhile_append2)

lemma rstrip_whitespace: "whitespace ws \<Longrightarrow> rstrip (rest @ ws) = rstrip rest"
  using dropWhile_append2 [of "rev ws" isspace "rev rest"]
  by (simp add: whitespace_def rstrip_def list_all_iff)

lemma re_sub_spaces_solid:
  "list_all (\<lambda>c. \<not> isspace c) f \<Longrightarrow> re_sub_spaces (f @ rest) = f @ re_sub_spaces rest"
  by (induction f) simp_all

lemma re_sub_spaces_separator:
  assumes "sep \<noteq> []" "whitespace sep" "solid g"
  shows "re_sub_spaces (sep @ g @ rest) = CHR '' '' # re_sub_spaces (g @ rest)"
proof -
  from assms(1) obtain c cs where sep: "sep = c # cs" by (cases sep) auto
  with assms(2) have c: "isspace c" and cs: "whitespace cs" by (auto simp: whitespace_def)
  from cs have "dropWhile isspace (cs @ g @ rest) = dropWhile isspace (g @ rest)"
    by (simp add: whitespace_def list_all_iff dropWhile_append2)
  also from assms(3) have "\<dots> = g @ rest"
    using lstrip_solid [of g rest] by (simp add: lstrip_def)
  finally show ?thesis using c sep by simp
qed

lemma fields_text_append: "fields_text f others = f @ fields_text [] others"
  by (cases others) auto

lemma re_sub_spaces_fields_text:
  "solid f \<Longrightarrow> separated others \<Longrightarrow>
   re_sub_spaces (fields_text f others) = fields_text f (map (\<lambda>(sep, g). ('' '', g)) others)"
proof (induction others arbitrary: f)
  case Nil
  then show ?case using re_sub_spaces_solid [of f "[]"] by (simp add: solid_def)
next
  case (Cons a others)
  obtain sep g where a: "a = (sep, g)" by (cases a)
  with Cons.prems have sep: "sep \<noteq> []" "whitespace sep" and g: "solid g" and others: "separated others"
    by (auto simp: separated_def)
  have "re_sub_spaces (fields_text f (a # others)) = f @ re_sub_spaces (sep @ g @ fields_text [] others)"
    using Cons.prems(1) a fields_text_append [of g others]
    by (simp add: re_sub_spaces_solid solid_def)
  also have "\<dots> = f @ CHR '' '' # re_sub_spaces (fields_text g others)"
    using re_sub_spaces_separator [OF sep g] fields_text_append [of g others] by simp
  also have "\<dots> = fields_text f (map (\<lambda>(sep, g). ('' '', g)) (a # others))"
    using Cons.IH [OF g others] a by simp
  finally show ?case .
qed

lemma split_from_field:
  "sep \<notin> set f \<Longrightarrow> split_from sep cur (f @ rest) = split_from sep (cur @ f) rest"
  by (induction f arbitrary: cur) auto

lemma split_from_fields_text:
  "CHR '' '' \<notin> set f \<Longrightarrow> list_all (\<lambda>(sep, g). CHR '' '' \<notin> set g) others \<Longrightarrow>
   split_from (CHR '' '') cur (fields_text f (map (\<lambda>(sep, g). ('' '', g)) others))
     = (cur @ f) # map snd others"
proof (induction others arbitrary: f cur)
  case Nil
  then show ?case using split_from_field [of "CHR '' ''" f cur "[]"] by simp
next
  case (Cons a others)
  obtain sep g where a: "a = (sep, g)" by (cases a)
  with Cons.prems have g: "CHR '' '' \<notin> set g" and others: "list_all (\<lambda>(sep, g). CHR '' '' \<notin> set g) others"
    by auto
  show ?case
    using Cons.prems(1) a Cons.IH [OF g others, of "[]"]
    by (simp add: split_from_field)
qed

lemma solid_no_space: "solid f \<Longrightarrow> CHR '' '' \<notin> set f"
  by (auto simp: solid_def list_all_iff isspace_def)

lemma solid_front: "solid f \<Longrightarrow> \<exists>c cs. f @ rest = c # cs \<and> \<not> isspace c"
  by (cases f) (auto simp: solid_def)

lemma solid_back: "solid f \<Longrightarrow> \<exists>d ds. rest @ f = ds @ [d] \<and> \<not> isspace d"
  by (cases f rule: rev_cases) (auto simp: solid_def)

lemma fields_text_front:
  "solid f \<Longrightarrow> \<exists>c cs. fields_text f others = c # cs \<and> \<not> isspace c"
  using solid_front [of f "fields_text [] others"] fields_text_append [of f others] by simp

lemma fields_text_back:
  "solid f \<Longrightarrow> separated others \<Longrightarrow>
   \<exists>d ds. fields_text f others = ds @ [d] \<and> \<not> isspace d"
proof (induction others arbitrary: f)
  case Nil
  then show ?case using solid_back [of f "[]"] by simp
next
  case (Cons a others)
  obtain sep g where a: "a = (sep, g)" by (cases a)
  with Cons.prems have g: "solid g" and others: "separated others"
    by (auto simp: separated_def)
  from Cons.IH [OF g others] obtain d ds where "fields_text g others = ds @ [d]" "\<not> isspace d"
    by blast
  then show ?case using a by auto
qed

lemma normalise_record:
  assumes "whitespace lead" "whitespace trail" "solid f" "separated others"
  shows "str_split (CHR '' '') (re_sub_spaces (rstrip (lstrip (lead @ fields_text f others @ trail))))
           = f # map snd others"
proof -
  from fields_text_front [OF assms(3)] obtain c cs
    where first: "fields_text f others = c # cs" "\<not> isspace c"
    by blast
  from fields_text_back [OF assms(3,4)] obtain d ds
    where final: "fields_text f others = ds @ [d]" "\<not> isspace d"
    by blast
  have "lstrip (lead @ fields_text f others @ trail) = lstrip (fields_text f others @ trail)"
    using assms(1) by (rule lstrip_whitespace)
  also have "\<dots> = fields_text f others @ trail"
    using first by (simp add: lstrip_def)
  finally have l: "lstrip (lead @ fields_text f others @ trail) = fields_text f others @ trail" .
  have "rstrip (fields_text f others @ trail) = rstrip (fields_text f others)"
    using assms(2) by (rule rstrip_whitespace)
  also have "\<dots> = fields_text f others"
    using final by (simp add: rstrip_def)
  finally have r: "rstrip (fields_text f others @ trail) = fields_text f others" .
  have nospace: "list_all (\<lambda>(sep, g). CHR '' '' \<notin> set g) others"
    using assms(4) by (auto simp: separated_def list_all_iff solid_no_space)
  show ?thesis
    using split_from_fields_text [OF solid_no_space [OF assms(3)] nospace, of "[]"]
    by (simp add: l r re_sub_spaces_fields_text [OF assms(3,4)] str_split_def)
qed

lemma digits_from_digits:
  "list_all isdecimal ds \<Longrightarrow>
   digits_from acc ds = Some (foldl (\<lambda>acc c. 10 * acc + digit_value c) acc ds)"
  by (induction ds arbitrary: acc) auto

lemma parse_digits_decimal:
  assumes "f \<noteq> []" "list_all isdecimal f"
  shows "parse_digits f
           = (if int_max_str_digits < int (length f) then None else Some (decimal_value f))"
proof -
  from assms obtain c cs where fc: "f = c # cs" and c: "isdecimal c"
    by (cases f) auto
  from assms(2) have kept: "filter isdecimal f = f"
    by (simp add: list_all_iff)
  have "parse_digits f
          = (if int_max_str_digits < int (length (filter isdecimal f)) then None
             else digits_from 0 f)"
    using c by (simp add: parse_digits_def fc)
  then show ?thesis
    using digits_from_digits [OF assms(2), of 0] by (simp add: kept decimal_value_def)
qed

lemma py_int_digits:
  assumes "f \<noteq> []" "list_all isdecimal f"
  shows "py_int f
           = (if int_max_str_digits < int (length f) then None else Some (decimal_value f))"
proof -
  from assms obtain c cs where fc: "f = c # cs" and c: "isdecimal c"
    by (cases f) auto
  from assms have "solid f"
    by (auto simp: solid_def list_all_iff isdecimal_not_isspace)
  then have "rstrip (lstrip f) = f"
    using lstrip_solid [of f "[]"] rstrip_solid [of f "[]"] by simp
  then have "py_int f = parse_digits f"
    using isdecimal_not_sign [OF c] by (simp add: py_int_def fc)
  then show ?thesis
    using parse_digits_decimal [OF assms] by simp
qed

lemma py_int_decimal_field: "decimal_field f \<Longrightarrow> py_int f = Some (decimal_value f)"
  using py_int_digits [of f] by (simp add: decimal_field_def)

text \<open>A field of more digits than the limit is refused, though it is a decimal
  integer.\<close>

lemma py_int_too_long:
  "list_all isdecimal f \<Longrightarrow> int_max_str_digits < int (length f) \<Longrightarrow> py_int f = None"
  using py_int_digits [of f] by (cases f) (simp_all add: int_max_str_digits_def)

lemma collect_loop_parsed:
  "\<forall>st \<in> set sts. StatType_value st < length blockstat_map \<and>
                   py_int (blockstat_map ! StatType_value st) = Some (val st) \<Longrightarrow>
   collect_loop blockstat_map sts self
     = Returns (self\<lparr>self_stats := fold (\<lambda>st. AList.update st (val st)) sts (self_stats self)\<rparr>)"
  by (induction sts arbitrary: self) auto

lemma map_of_fold_update:
  "map_of (fold (\<lambda>k. AList.update k (v k)) ks xs) k
     = (if k \<in> set ks then Some (v k) else map_of xs k)"
  by (induction ks arbitrary: xs) (auto simp: update_conv')

lemma StatType_members_all: "st \<in> set StatType_members"
  by (cases st) (simp_all add: StatType_members_def)

lemma StatType_value_less: "StatType_value st < 11"
  by (cases st) simp_all

lemma fold_update_fresh:
  "fold (\<lambda>st. AList.update st (val st)) StatType_members []
     = map (\<lambda>st. (st, val st)) StatType_members"
  by (simp add: StatType_members_def)

lemma fold_update_complete:
  "map fst xs = StatType_members \<Longrightarrow>
   fold (\<lambda>st. AList.update st (val st)) StatType_members xs
     = map (\<lambda>st. (st, val st)) StatType_members"
  by (auto simp: StatType_members_def map_eq_Cons_conv)

lemma zip_members:
  "length vs = 11 \<Longrightarrow>
   map (\<lambda>st. (st, g (vs ! StatType_value st))) StatType_members
     = zip StatType_members (map g vs)"
  by (auto simp: StatType_members_def length_Suc_conv eval_nat_numeral)

text \<open>
  Claim C5. For every valid record of eleven whitespace-separated decimal fields, each
  of one to 4300 digits, with any leading and trailing whitespace and any non-empty runs
  of whitespace between the fields, \<^verbatim>\<open>collect\<close> returns and leaves a sample with the
  device's name and the clock's time, in which every one of the eleven counters is mapped
  to the number of the field at the counter's position. This holds from every prior state
  of the object.
  From the two states a collector can be in when \<^verbatim>\<open>collect\<close> is called, fresh or
  filled by an earlier successful read, the items are in the enumeration order
  \<^verbatim>\<open>read_io\<close> to \<^verbatim>\<open>time_in_queue\<close>.
\<close>

theorem BlockStat_collect_valid_record:
  assumes "valid_record lead f others trail"
  shows "\<exists>s. BlockStat_collect now (Content (lead @ fields_text f others @ trail)) self = Returns s \<and>
           self_block s = self_block self \<and>
           self_time s = Seconds now \<and>
           (\<forall>st. map_of (self_stats s) st
                   = Some (decimal_value ((f # map snd others) ! StatType_value st))) \<and>
           (self_stats self = [] \<or> map fst (self_stats self) = StatType_members \<longrightarrow>
              self_stats s = zip StatType_members (map decimal_value (f # map snd others)))"
proof -
  let ?fs = "f # map snd others"
  let ?val = "\<lambda>st. decimal_value (?fs ! StatType_value st)"
  from assms have lead: "whitespace lead" and trail: "whitespace trail" and f: "decimal_field f"
    and len: "length others = 10"
    and others: "list_all (\<lambda>(sep, g). sep \<noteq> [] \<and> whitespace sep \<and> decimal_field g) others"
    by (simp_all add: valid_record_def)
  from others have sep: "separated others"
    by (auto simp: separated_def list_all_iff decimal_field_solid)
  have normal: "str_split (CHR '' '')
      (re_sub_spaces (rstrip (lstrip (lead @ fields_text f others @ trail)))) = ?fs"
    using lead trail decimal_field_solid [OF f] sep by (rule normalise_record)
  have all: "\<forall>g \<in> set ?fs. decimal_field g"
    using f others by (auto simp: list_all_iff)
  have parsed: "\<forall>st \<in> set StatType_members.
      StatType_value st < length ?fs \<and> py_int (?fs ! StatType_value st) = Some (?val st)"
  proof
    fix st
    have "StatType_value st < length ?fs"
      using StatType_value_less [of st] len by simp
    moreover from this all have "decimal_field (?fs ! StatType_value st)"
      using nth_mem by blast
    ultimately show "StatType_value st < length ?fs \<and>
        py_int (?fs ! StatType_value st) = Some (?val st)"
      by (simp add: py_int_decimal_field)
  qed
  let ?s = "self\<lparr>self_time := Seconds now,
      self_stats := fold (\<lambda>st. AList.update st (?val st)) StatType_members (self_stats self)\<rparr>"
  have run: "BlockStat_collect now (Content (lead @ fields_text f others @ trail)) self = Returns ?s"
    using collect_loop_parsed [OF parsed, of "self\<lparr>self_time := Seconds now\<rparr>"]
    by (simp add: BlockStat_collect_def normal)
  have vals: "\<forall>st. map_of (self_stats ?s) st = Some (?val st)"
    by (simp add: map_of_fold_update StatType_members_all)
  have ordered: "self_stats self = [] \<or> map fst (self_stats self) = StatType_members \<longrightarrow>
      self_stats ?s = zip StatType_members (map decimal_value ?fs)"
  proof
    assume "self_stats self = [] \<or> map fst (self_stats self) = StatType_members"
    then have "self_stats ?s = map (\<lambda>st. (st, ?val st)) StatType_members"
      using fold_update_fresh [of ?val] fold_update_complete [of "self_stats self" ?val]
      by auto
    also have "\<dots> = zip StatType_members (map decimal_value ?fs)"
      using len by (intro zip_members) simp
    finally show "self_stats ?s = zip StatType_members (map decimal_value ?fs)" .
  qed
  from run vals ordered show ?thesis by simp
qed

theorem BlockStat_collect_valid_record_witness:
  "valid_record '' \<newline>'' ''5'' [('' '', ''0''), (''  '', ''12''), ([CHR 0x09], ''007''), ('' '', ''4''),
       ('' '', ''5''), ('' '', ''6''), ('' '', ''7''), ('' '', ''8''), ('' '', ''9''), ('' '', ''1000'')]
       ''\<newline>'' \<and>
   BlockStat_collect 1000
      (Content ('' \<newline>'' @ fields_text ''5'' [('' '', ''0''), (''  '', ''12''), ([CHR 0x09], ''007''),
                 ('' '', ''4''), ('' '', ''5''), ('' '', ''6''), ('' '', ''7''), ('' '', ''8''),
                 ('' '', ''9''), ('' '', ''1000'')] @ ''\<newline>''))
      (BlockStat_init ''sda'')
     = Returns \<lparr>self_block = ''sda'',
         self_stats = [(read_io, 5), (read_merges, 0), (read_sectors, 12), (read_ticks, 7),
                       (write_io, 4), (write_merges, 5), (write_sectors, 6), (write_ticks, 7),
                       (in_flight, 8), (io_ticks, 9), (time_in_queue, 1000)],
         self_time = Seconds 1000\<rparr>"
  (is "?valid \<and> ?run")
proof -
  have valid: ?valid by code_simp
  have run: ?run by code_simp
  from BlockStat_collect_valid_record [OF valid, of 1000 "BlockStat_init ''sda''"] valid run
  show ?thesis by simp
qed

subsection \<open>Corrupt records and the metrics loop\<close>

lemma collect_loop_raises_ValueError:
  "\<forall>st' \<in> set pre. StatType_value st' < length m \<Longrightarrow>
   StatType_value st < length m \<Longrightarrow> py_int (m ! StatType_value st) = None \<Longrightarrow>
   \<exists>s. collect_loop m (pre @ st # post) self = Raises ValueError s"
  by (induction pre arbitrary: self) (auto split: option.splits)

lemma StatType_members_split:
  "\<exists>pre post. StatType_members = pre @ st # post \<and>
     (\<forall>st' \<in> set pre. StatType_value st' < StatType_value st)"
proof -
  let ?pre = "takeWhile (\<lambda>s. s \<noteq> st) StatType_members"
  let ?post = "tl (dropWhile (\<lambda>s. s \<noteq> st) StatType_members)"
  have "StatType_members = ?pre @ st # ?post \<and>
     (\<forall>st' \<in> set ?pre. StatType_value st' < StatType_value st)"
    by (cases st) (simp_all add: StatType_members_def)
  then show ?thesis by blast
qed

lemma StatType_of_position: "i < 11 \<Longrightarrow> \<exists>st. StatType_value st = i"
proof -
  assume "i < 11"
  then have "i = 0 \<or> i = 1 \<or> i = 2 \<or> i = 3 \<or> i = 4 \<or> i = 5 \<or> i = 6 \<or> i = 7 \<or> i = 8
      \<or> i = 9 \<or> i = 10"
    by arith
  then show ?thesis
    by (metis StatType_value.simps)
qed

lemma BlockStat_collect_corrupt:
  assumes "i < 11"
    and "i < length (str_split (CHR '' '') (re_sub_spaces (rstrip (lstrip text))))"
    and "py_int (str_split (CHR '' '') (re_sub_spaces (rstrip (lstrip text))) ! i) = None"
  shows "\<exists>s. BlockStat_collect now (Content text) self = Raises ValueError s"
proof -
  let ?m = "str_split (CHR '' '') (re_sub_spaces (rstrip (lstrip text)))"
  from assms(1) obtain st where st: "StatType_value st = i"
    using StatType_of_position by blast
  obtain pre post where members: "StatType_members = pre @ st # post"
    and before: "\<forall>st' \<in> set pre. StatType_value st' < StatType_value st"
    using StatType_members_split by blast
  from before st assms(2) have "\<forall>st' \<in> set pre. StatType_value st' < length ?m"
    by auto
  then show ?thesis
    using collect_loop_raises_ValueError [of pre ?m st post] st assms(2,3) members
    by (simp add: BlockStat_collect_def)
qed

lemma collect_all_raises:
  "b \<in> set bs \<Longrightarrow>
   \<exists>e s. BlockStat_collect (clock env (self_block b)) (statfile env (self_block b)) b = Raises e s \<Longrightarrow>
   \<exists>e bs'. collect_all env bs = Raises e bs'"
  by (induction bs) (auto split: outcome.splits)

lemma cycle_collect_raises:
  "collect_all env (blockstats d) = Raises e bs \<Longrightarrow>
   cycle output env d = Raises e (d\<lparr>blockstats := bs\<rparr>)"
  by (simp add: cycle_def)

lemma sendto_all_nothing:
  "\<forall>b \<in> set bs. self_stats b = [] \<Longrightarrow> sendto_all output h bs buf = Returns buf"
  by (induction bs) (auto simp: BlockStat_sendto_def)

lemma collect_all_unreadable:
  "\<forall>b \<in> set bs. statfile env (self_block b) = IOError \<Longrightarrow>
   collect_all env bs = Returns (map (\<lambda>b. b\<lparr>self_time := ZeroFloat\<rparr>) bs)"
  by (induction bs) (auto simp: BlockStat_collect_IOError)

lemma cycle_unreadable:
  assumes "\<forall>b \<in> set (blockstats d). self_stats b = [] \<and> statfile env (self_block b) = IOError"
  shows "\<exists>d'. cycle output env d = Returns d' \<and>
           blockstats d' = map (\<lambda>b. b\<lparr>self_time := ZeroFloat\<rparr>) (blockstats d)"
proof -
  let ?bs = "map (\<lambda>b. b\<lparr>self_time := ZeroFloat\<rparr>) (blockstats d)"
  have c: "collect_all env (blockstats d) = Returns ?bs"
    using assms by (intro collect_all_unreadable) simp
  have s: "sendto_all output h ?bs buf = Returns buf" for h and buf :: "'a ASendBuffer_scheme"
    using assms by (intro sendto_all_nothing) simp
  show ?thesis
    by (cases "send_buffer d")
      (simp_all add: cycle_def c s StdoutBuffer_flush_def split: prod.splits)
qed

lemma do_metrics_unreadable:
  "\<forall>b \<in> set (blockstats d). self_stats b = [] \<and> (\<forall>k. statfile (env k) (self_block b) = IOError) \<Longrightarrow>
   \<exists>d'. do_metrics fuel output env n d = Looping d'"
proof (induction fuel arbitrary: n d)
  case 0
  then show ?case by simp
next
  case (Suc fuel)
  then have "\<forall>b \<in> set (blockstats d). self_stats b = [] \<and> statfile (env n) (self_block b) = IOError"
    by simp
  from cycle_unreadable [OF this, of "output"] obtain d1
    where d1: "cycle output (env n) d = Returns d1"
      "blockstats d1 = map (\<lambda>b. b\<lparr>self_time := ZeroFloat\<rparr>) (blockstats d)"
    by blast
  with Suc.prems have "\<forall>b \<in> set (blockstats d1).
      self_stats b = [] \<and> (\<forall>k. statfile (env k) (self_block b) = IOError)"
    by auto
  from Suc.IH [OF this] d1 show ?case by simp
qed


lemma collect_all_first_raise:
  "\<forall>b' \<in> set before.
      \<exists>s. BlockStat_collect (clock env (self_block b')) (statfile env (self_block b')) b' = Returns s \<Longrightarrow>
   BlockStat_collect (clock env (self_block b)) (statfile env (self_block b)) b = Raises e s \<Longrightarrow>
   \<exists>bs'. collect_all env (before @ b # rest) = Raises e bs'"
  by (induction before) auto

lemma takeWhile_until: "b \<notin> set pre \<Longrightarrow> takeWhile (\<lambda>x. x \<noteq> b) (pre @ b # rest) = pre"
  by (induction pre) auto

text \<open>
  Claim C6. When the record of a device can be read and one of its first eleven fields
  is not an integer, \<^verbatim>\<open>collect\<close> raises \<^verbatim>\<open>ValueError\<close>; the cycle of the metrics loop in
  which this happens ends the loop with an exception, before anything is formatted,
  printed or sent, and the exception is that \<^verbatim>\<open>ValueError\<close> when the devices collected
  before this one returned. Devices that cannot be read do not end the loop: a process
  whose devices are all unreadable, cycle after cycle, keeps looping.
\<close>

theorem corrupt_record_ends_do_metrics:
  assumes "b \<in> set (blockstats d)"
    and "statfile (env n) (self_block b) = Content text"
    and "i < 11"
    and "i < length (str_split (CHR '' '') (re_sub_spaces (rstrip (lstrip text))))"
    and "py_int (str_split (CHR '' '') (re_sub_spaces (rstrip (lstrip text))) ! i) = None"
  shows "(\<exists>s. BlockStat_collect now (Content text) self = Raises ValueError s) \<and>
         (\<exists>e d'. do_metrics (Suc fuel) output env n d = Terminated e d' \<and>
                 send_buffer d' = send_buffer d \<and> stdout d' = stdout d \<and>
                 network d' = network d \<and>
                 ((\<forall>b' \<in> set (takeWhile (\<lambda>x. x \<noteq> b) (blockstats d)).
                     \<exists>s. BlockStat_collect (clock (env n) (self_block b'))
                            (statfile (env n) (self_block b')) b' = Returns s)
                  \<longrightarrow> e = ValueError)) \<and>
         ((\<forall>u \<in> set (blockstats d0).
              self_stats u = [] \<and> (\<forall>k. statfile (env0 k) (self_block u) = IOError))
          \<longrightarrow> (\<exists>d'. do_metrics fuel output env0 n d0 = Looping d'))"
proof (intro conjI)
  show "\<exists>s. BlockStat_collect now (Content text) self = Raises ValueError s"
    using assms(3-5) by (rule BlockStat_collect_corrupt)
next
  obtain s where raises:
    "BlockStat_collect (clock (env n) (self_block b)) (statfile (env n) (self_block b)) b
       = Raises ValueError s"
    using BlockStat_collect_corrupt [OF assms(3-5)] assms(2) by auto
  with assms(1) obtain e bs where e: "collect_all (env n) (blockstats d) = Raises e bs"
    using collect_all_raises [of b "blockstats d" "env n"] by blast
  have first: "e = ValueError"
    if "\<forall>b' \<in> set (takeWhile (\<lambda>x. x \<noteq> b) (blockstats d)).
          \<exists>s. BlockStat_collect (clock (env n) (self_block b'))
                 (statfile (env n) (self_block b')) b' = Returns s"
  proof -
    from assms(1) obtain pre rest where parts: "blockstats d = pre @ b # rest" "b \<notin> set pre"
      by (auto dest: split_list_first)
    then have "takeWhile (\<lambda>x. x \<noteq> b) (blockstats d) = pre"
      by (simp add: takeWhile_until)
    with that parts(1) have "\<forall>b' \<in> set pre.
          \<exists>s. BlockStat_collect (clock (env n) (self_block b'))
                 (statfile (env n) (self_block b')) b' = Returns s"
      and "blockstats d = pre @ b # rest"
      by simp_all
    with collect_all_first_raise [of pre "env n" b ValueError s rest] raises e show ?thesis
      by auto
  qed
  from e have "cycle output (env n) d = Raises e (d\<lparr>blockstats := bs\<rparr>)"
    by (rule cycle_collect_raises)
  with first show "\<exists>e d'. do_metrics (Suc fuel) output env n d = Terminated e d' \<and>
                 send_buffer d' = send_buffer d \<and> stdout d' = stdout d \<and>
                 network d' = network d \<and>
                 ((\<forall>b' \<in> set (takeWhile (\<lambda>x. x \<noteq> b) (blockstats d)).
                     \<exists>s. BlockStat_collect (clock (env n) (self_block b'))
                            (statfile (env n) (self_block b')) b' = Returns s)
                  \<longrightarrow> e = ValueError)"
    by simp
next
  show "(\<forall>u \<in> set (blockstats d0).
              self_stats u = [] \<and> (\<forall>k. statfile (env0 k) (self_block u) = IOError))
          \<longrightarrow> (\<exists>d'. do_metrics fuel output env0 n d0 = Looping d')"
    using do_metrics_unreadable by blast
qed


theorem corrupt_record_ends_do_metrics_witness:
  "py_int (str_split (CHR '' '')
      (re_sub_spaces (rstrip (lstrip ''1 2 x 4 5 6 7 8 9 10 11\<newline>''))) ! 2) = None \<and>
   do_metrics (Suc 0) HumanOutput
      (\<lambda>k. \<lparr>clock = (\<lambda>name. 1000),
             statfile = (\<lambda>name. if name = ''sdb'' then Content ''1 2 x 4 5 6 7 8 9 10 11\<newline>''
                                 else IOError),
             machine = \<lparr>utcoffset = (\<lambda>t. 0), gethostname = ''h''\<rparr>,
             transport = (\<lambda>attempt. Delivers)\<rparr>)
      0
      \<lparr>blockstats = [BlockStat_init ''sda'', BlockStat_init ''sdb''],
        send_buffer = StdoutBuffer StdoutBuffer_init, stdout = [], network = [], sockets = 0\<rparr>
     = Terminated ValueError
        \<lparr>blockstats =
           [\<lparr>self_block = ''sda'', self_stats = [], self_time = ZeroFloat\<rparr>,
            \<lparr>self_block = ''sdb'', self_stats = [(read_io, 1), (read_merges, 2)],
              self_time = Seconds 1000\<rparr>],
         send_buffer = StdoutBuffer \<lparr>messages = []\<rparr>, stdout = [], network = [],
         sockets = 0\<rparr> \<and>
   do_metrics 2 HumanOutput
      (\<lambda>k. \<lparr>clock = (\<lambda>name. 1000), statfile = (\<lambda>name. IOError),
             machine = \<lparr>utcoffset = (\<lambda>t. 0), gethostname = ''h''\<rparr>,
             transport = (\<lambda>attempt. Delivers)\<rparr>)
      0
      \<lparr>blockstats = [BlockStat_init ''sda'', BlockStat_init ''sdb''],
        send_buffer = StdoutBuffer StdoutBuffer_init, stdout = [], network = [], sockets = 0\<rparr>
     = Looping
        \<lparr>blockstats =
           [\<lparr>self_block = ''sda'', self_stats = [], self_time = ZeroFloat\<rparr>,
            \<lparr>self_block = ''sdb'', self_stats = [], self_time = ZeroFloat\<rparr>],
         send_buffer = StdoutBuffer \<lparr>messages = []\<rparr>, stdout = [''\<newline>'', ''\<newline>''],
         network = [], sockets = 0\<rparr>"
  (is "?corrupt \<and> ?ends \<and> ?goes_on")
proof -
  let ?text = "''1 2 x 4 5 6 7 8 9 10 11\<newline>''"
  let ?env = "\<lambda>k::nat. \<lparr>clock = (\<lambda>name. 1000),
             statfile = (\<lambda>name. if name = ''sdb'' then Content ?text else IOError),
             machine = \<lparr>utcoffset = (\<lambda>t. 0), gethostname = ''h''\<rparr>,
             transport = (\<lambda>attempt. Delivers)\<rparr>"
  let ?d = "\<lparr>blockstats = [BlockStat_init ''sda'', BlockStat_init ''sdb''],
        send_buffer = StdoutBuffer StdoutBuffer_init, stdout = [], network = [], sockets = 0\<rparr>"
  have corrupt: ?corrupt by code_simp
  have ends: ?ends by code_simp
  have goes_on: ?goes_on by code_simp
  have member: "BlockStat_init ''sdb'' \<in> set (blockstats ?d)" by simp
  have readable: "statfile (?env 0) (self_block (BlockStat_init ''sdb'')) = Content ?text"
    by (simp add: BlockStat_init_def)
  have position: "(2::nat) < 11" by simp
  have present: "2 < length (str_split (CHR '' '') (re_sub_spaces (rstrip (lstrip ?text))))"
    by code_simp
  from corrupt_record_ends_do_metrics [OF member readable position present corrupt]
    corrupt ends goes_on
  show ?thesis by simp
qed

end
